theory Spec2Isabelle
  imports Complex_Main
begin

section \<open>Data model of the tokenizer\<close>

text \<open>
  The tokenizer of \<^verbatim>\<open>parser/parsing.go\<close> works on the runes of the expression
  (\<^verbatim>\<open>[]rune(expression)\<close>). A rune is a code point, modelled as a natural number;
  a Go string built from runes is modelled as the list of its runes.
\<close>

type_synonym rune = nat

definition rune :: "char \<Rightarrow> rune" where
  "rune c = of_char c"

definition runes :: "string \<Rightarrow> rune list" where
  "runes s = map rune s"

text \<open>
  Modelled from the spec: the token kinds of section 6. The declaration of
  \<^verbatim>\<open>TokenKind\<close> is missing from the sources; \<^verbatim>\<open>UNKNOWN\<close> is the zero value of
  the type, the value \<^verbatim>\<open>var kind TokenKind\<close> holds before any assignment.
\<close>

datatype TokenKind =
    UNKNOWN | NUMERIC | STRING | TIME | BOOLEAN | VARIABLE | ACCESSOR | FUNCTION
  | SEPARATOR | COMPARATOR | LOGICALOP | PREFIX | MODIFIER | TERNARY
  | CLAUSE | CLAUSE_CLOSE | ARRAY

text \<open>The struct \<^verbatim>\<open>ExpressionFunction\<close>.\<close>

record ExpressionFunction =
  Name :: "rune list"
  Parameters :: "rune list list"
  ReturnType :: "rune list"

text \<open>
  A value of \<^verbatim>\<open>time.Time\<close> is opaque to the tokenizer; it is modelled by the instant
  it denotes, in nanoseconds since the Unix epoch.
\<close>

datatype Time = Instant int

text \<open>
  The dynamic \<^verbatim>\<open>interface{}\<close> value of a token, one constructor per dynamic type the
  tokenizer stores. A \<^verbatim>\<open>float64\<close> is modelled by the real number it denotes: every
  float the tokenizer stores is finite.
\<close>

datatype TokenValue =
    VNil
  | VFloat real
  | VBool bool
  | VString "rune list"
  | VTime Time
  | VFunction ExpressionFunction
  | VStrings "rune list list"
  | VRune rune

text \<open>
  Modelled from the spec: the token of section 3, with the field names the code uses
  (\<^verbatim>\<open>Kind\<close>, \<^verbatim>\<open>Value\<close>, \<^verbatim>\<open>Raw\<close>, \<^verbatim>\<open>Start\<close>, \<^verbatim>\<open>End\<close>); the declaration
  of \<^verbatim>\<open>ExpressionToken\<close> is missing from the sources.
\<close>

record ExpressionToken =
  Kind :: TokenKind
  Value :: TokenValue
  Raw :: "rune list"
  Start :: int
  End :: int

definition zeroToken :: ExpressionToken where
  "zeroToken = \<lparr>Kind = UNKNOWN, Value = VNil, Raw = [], Start = 0, End = 0\<rparr>"

text \<open>The errors the tokenizer returns, one constructor per message.\<close>

datatype error =
    HexParseError "rune list"
  | NumericParseError "rune list"
  | UnclosedParameterBracket
  | HangingAccessor "rune list"
  | UnexportedField "rune list" "rune list"
  | UnclosedStringLiteral
  | InvalidToken "rune list"
  | UnbalancedParenthesis
  | NoLexerState TokenKind

text \<open>A Go run-time panic is a result of its own: it is not an \<^verbatim>\<open>error\<close> value.\<close>

datatype panic = IndexOutOfRange | NegativeRepeatCount

subsection \<open>The standard library\<close>

text \<open>
  The functions of Go's standard library the tokenizer calls are parameters of the model:
  the classes and case mappings of package \<^verbatim>\<open>unicode\<close>, \<^verbatim>\<open>strconv.ParseFloat(s, 64)\<close>
  (\<open>None\<close> when it returns an error) and \<^verbatim>\<open>time.ParseInLocation(format, s, time.Local)\<close>.
\<close>

record golib =
  IsSpace :: "rune \<Rightarrow> bool"
  IsLetter :: "rune \<Rightarrow> bool"
  IsDigit :: "rune \<Rightarrow> bool"
  ToUpper :: "rune \<Rightarrow> rune"
  ToLower :: "rune \<Rightarrow> rune"
  ParseFloat :: "rune list \<Rightarrow> real option"
  ParseInLocation :: "string \<Rightarrow> rune list \<Rightarrow> Time option"

text \<open>
  \<^verbatim>\<open>strconv.ParseUint(s, 16, 64)\<close>: the digits of \<open>s\<close> in base 16, with no prefix, sign
  or underscore; an error (\<open>None\<close>) on the empty string, on any other character and on a
  value above \<open>2^64 - 1\<close>.
\<close>

definition hexDigitValue :: "rune \<Rightarrow> nat option" where
  "hexDigitValue c =
     (if 48 \<le> c \<and> c \<le> 57 then Some (c - 48)
      else if 97 \<le> c \<and> c \<le> 102 then Some (c - 87)
      else if 65 \<le> c \<and> c \<le> 70 then Some (c - 55)
      else None)"

fun hexValue :: "nat \<Rightarrow> rune list \<Rightarrow> nat option" where
  "hexValue acc [] = Some acc"
| "hexValue acc (c # cs) =
     (case hexDigitValue c of None \<Rightarrow> None | Some d \<Rightarrow> hexValue (16 * acc + d) cs)"

definition ParseUint16 :: "rune list \<Rightarrow> nat option" where
  "ParseUint16 s =
     (if s = [] then None
      else case hexValue 0 s of
             None \<Rightarrow> None
           | Some n \<Rightarrow> if n < 2 ^ 64 then Some n else None)"

text \<open>
  The conversion \<^verbatim>\<open>float64(tokenValueInt)\<close> of a \<^verbatim>\<open>uint64\<close>: the nearest value with
  a 53-bit significand, ties to the even significand.
\<close>

fun bitLen :: "nat \<Rightarrow> nat" where
  "bitLen n = (if n = 0 then 0 else Suc (bitLen (n div 2)))"

definition float64_of_uint64 :: "nat \<Rightarrow> real" where
  "float64_of_uint64 n =
     (if n < 2 ^ 53 then real n
      else let e = bitLen n - 53;
               q = n div 2 ^ e;
               r = n mod 2 ^ e;
               h = 2 ^ (e - 1);
               q' = (if h < r \<or> (r = h \<and> odd q) then q + 1 else q)
           in real (q' * 2 ^ e))"

subsection \<open>The character stream\<close>

text \<open>
  Modelled from the spec: the character stream of sections 3 and 4.1 (the type
  \<^verbatim>\<open>lexerStream\<close> is missing from the sources). It owns the runes and a cursor.
  \<^verbatim>\<open>readCharacter\<close> is undefined when nothing can be read; the model makes that a
  panic, which is what an index out of range is in Go. \<^verbatim>\<open>rewind(n)\<close> moves the cursor
  back by \<open>n\<close>, forward when \<open>n\<close> is negative.
\<close>

record lexerStream =
  source :: "rune list"
  position :: int

definition newLexerStream :: "rune list \<Rightarrow> lexerStream" where
  "newLexerStream expression = \<lparr>source = expression, position = 0\<rparr>"

definition canRead :: "lexerStream \<Rightarrow> bool" where
  "canRead stream \<longleftrightarrow> position stream < int (length (source stream))"

definition readCharacter :: "lexerStream \<Rightarrow> panic + (rune \<times> lexerStream)" where
  "readCharacter stream =
     (if 0 \<le> position stream \<and> position stream < int (length (source stream))
      then Inr (source stream ! nat (position stream),
                stream\<lparr>position := position stream + 1\<rparr>)
      else Inl IndexOutOfRange)"

definition rewind :: "lexerStream \<Rightarrow> int \<Rightarrow> lexerStream" where
  "rewind stream n = stream\<lparr>position := position stream - n\<rparr>"

subsection \<open>Character classes\<close>

definition isHexDigit :: "golib \<Rightarrow> rune \<Rightarrow> bool" where
  "isHexDigit L character \<longleftrightarrow>
     (let c = ToLower L character
      in IsDigit L c \<or> c = rune CHR ''a'' \<or> c = rune CHR ''b'' \<or> c = rune CHR ''c''
         \<or> c = rune CHR ''d'' \<or> c = rune CHR ''e'' \<or> c = rune CHR ''f'')"

definition isNumeric :: "golib \<Rightarrow> rune \<Rightarrow> bool" where
  "isNumeric L character \<longleftrightarrow> IsDigit L character \<or> character = rune CHR ''.''"

definition isNotQuote :: "rune \<Rightarrow> bool" where
  "isNotQuote character \<longleftrightarrow> character \<noteq> rune (CHR 0x27) \<and> character \<noteq> rune (CHR 0x22)"

definition isVariableName :: "golib \<Rightarrow> rune \<Rightarrow> bool" where
  "isVariableName L character \<longleftrightarrow>
     IsLetter L character \<or> IsDigit L character \<or> character = rune CHR ''_''
     \<or> character = rune CHR ''.''"

definition isNotAlphanumeric :: "golib \<Rightarrow> rune \<Rightarrow> bool" where
  "isNotAlphanumeric L character \<longleftrightarrow>
     \<not> (IsDigit L character \<or> IsLetter L character \<or> character = rune CHR ''(''
        \<or> character = rune CHR '')'' \<or> character = rune CHR ''[''
        \<or> character = rune CHR '']'' \<or> \<not> isNotQuote character)"

definition isNotClosingBracket :: "rune \<Rightarrow> bool" where
  "isNotClosingBracket character \<longleftrightarrow> character \<noteq> rune CHR '']''"

definition getFirstRune :: "rune list \<Rightarrow> rune" where
  "getFirstRune candidate = (case candidate of [] \<Rightarrow> 0 | character # _ \<Rightarrow> character)"

subsection \<open>Reading runs of characters\<close>

text \<open>
  \<^verbatim>\<open>readUntilFalse\<close>: the loop, with \<^verbatim>\<open>tokenBuffer\<close> as an accumulator. The result is
  the string read and the flag \<^verbatim>\<open>conditioned\<close>, with the stream as the loop left it.
  The character after a backslash is read with no test that one is there.
\<close>

lemma readCharacter_position:
  "readCharacter s = Inr (c, s') \<Longrightarrow>
     position s' = position s + 1 \<and> source s' = source s \<and> 0 \<le> position s
     \<and> position s < int (length (source s))"
  by (auto simp: readCharacter_def split: if_splits)

function readUntilFalse ::
  "golib \<Rightarrow> lexerStream \<Rightarrow> bool \<Rightarrow> bool \<Rightarrow> bool \<Rightarrow> (rune \<Rightarrow> bool) \<Rightarrow> rune list
     \<Rightarrow> panic + ((rune list \<times> bool) \<times> lexerStream)" where
  "readUntilFalse L stream includeWhitespace breakWhitespace allowEscaping condition tokenBuffer =
     (if \<not> canRead stream then Inr ((tokenBuffer, False), stream)
      else case readCharacter stream of
        Inl p \<Rightarrow> Inl p
      | Inr (character, s1) \<Rightarrow>
          if allowEscaping \<and> character = rune (CHR 0x5C) then
            (case readCharacter s1 of
               Inl p \<Rightarrow> Inl p
             | Inr (escaped, s2) \<Rightarrow>
                 readUntilFalse L s2 includeWhitespace breakWhitespace allowEscaping condition
                   (tokenBuffer @ [escaped]))
          else if IsSpace L character \<and> breakWhitespace \<and> tokenBuffer \<noteq> [] then
            Inr ((tokenBuffer, True), s1)
          else if IsSpace L character \<and> \<not> includeWhitespace then
            readUntilFalse L s1 includeWhitespace breakWhitespace allowEscaping condition
              tokenBuffer
          else if condition character then
            readUntilFalse L s1 includeWhitespace breakWhitespace allowEscaping condition
              (tokenBuffer @ [character])
          else Inr ((tokenBuffer, True), rewind s1 1))"
  by pat_completeness auto
termination
  by (relation "measure (\<lambda>(L, s, iw, bw, ae, c, b). nat (int (length (source s)) - position s))")
     (auto dest!: readCharacter_position)

declare readUntilFalse.simps [simp del]

text \<open>\<^verbatim>\<open>readTokenUntilFalse\<close>: one step back, then the run; the flag is dropped.\<close>

definition readTokenUntilFalse ::
  "golib \<Rightarrow> lexerStream \<Rightarrow> (rune \<Rightarrow> bool) \<Rightarrow> panic + (rune list \<times> lexerStream)" where
  "readTokenUntilFalse L stream condition =
     (case readUntilFalse L (rewind stream 1) False True True condition [] of
        Inl p \<Rightarrow> Inl p
      | Inr ((ret, _), s1) \<Rightarrow> Inr (ret, s1))"

subsection \<open>The lexer state machine and the symbol tables\<close>

text \<open>
  Modelled from the spec: the lexer state of sections 3 and 4.2, a named state with the
  token kinds it may transition to (the type \<^verbatim>\<open>lexerState\<close> and its method
  \<^verbatim>\<open>canTransitionTo\<close> are missing from the sources).
\<close>

record lexerState =
  stateKind :: TokenKind
  validNextKinds :: "TokenKind list"

definition canTransitionTo :: "lexerState \<Rightarrow> TokenKind \<Rightarrow> bool" where
  "canTransitionTo state kind \<longleftrightarrow> kind \<in> set (validNextKinds state)"

text \<open>
  The tables the tokenizer consults are declared outside the sources and are parameters
  of the model: the first lexer state \<^verbatim>\<open>validLexerStates[0]\<close>, the function
  \<^verbatim>\<open>getLexerStateForToken\<close> (\<open>None\<close> when it returns an error, which
  \<^verbatim>\<open>ParseTokens\<close> returns in its turn: the error \<open>NoLexerState\<close>), and the five
  symbol tables, each given by its set of keys (the code only tests membership).
\<close>

record tables =
  initialState :: lexerState
  getLexerStateForToken :: "TokenKind \<Rightarrow> lexerState option"
  prefixSymbols :: "rune list set"
  modifierSymbols :: "rune list set"
  logicalSymbols :: "rune list set"
  comparatorSymbols :: "rune list set"
  ternarySymbols :: "rune list set"

subsection \<open>Timestamps\<close>

text \<open>
  \<^verbatim>\<open>tryParseTime\<close>: the formats in the order of the code, the first six being the
  constants \<^verbatim>\<open>ANSIC\<close>, \<^verbatim>\<open>UnixDate\<close>, \<^verbatim>\<open>RubyDate\<close>, \<^verbatim>\<open>Kitchen\<close>,
  \<^verbatim>\<open>RFC3339\<close> and \<^verbatim>\<open>RFC3339Nano\<close> of package \<^verbatim>\<open>time\<close>; the first format
  that parses gives the time.
\<close>

definition timeFormats :: "string list" where
  "timeFormats =
     [''Mon Jan _2 15:04:05 2006'',
      ''Mon Jan _2 15:04:05 MST 2006'',
      ''Mon Jan 02 15:04:05 -0700 2006'',
      ''3:04PM'',
      ''2006-01-02T15:04:05Z07:00'',
      ''2006-01-02T15:04:05.999999999Z07:00'',
      ''2006-01-02'',
      ''2006-01-02 15:04'',
      ''2006-01-02 15:04:05'',
      ''2006-01-02 15:04:05-07:00'',
      ''2006-01-02T15Z0700'',
      ''2006-01-02T15:04Z0700'',
      ''2006-01-02T15:04:05Z0700'',
      ''2006-01-02T15:04:05.999999999Z0700'']"

definition tryParseExactTime :: "golib \<Rightarrow> rune list \<Rightarrow> string \<Rightarrow> Time option" where
  "tryParseExactTime L candidate format = ParseInLocation L format candidate"

fun tryParseTime_formats :: "golib \<Rightarrow> rune list \<Rightarrow> string list \<Rightarrow> Time option" where
  "tryParseTime_formats L candidate [] = None"
| "tryParseTime_formats L candidate (format # formats) =
     (case tryParseExactTime L candidate format of
        Some ret \<Rightarrow> Some ret
      | None \<Rightarrow> tryParseTime_formats L candidate formats)"

definition tryParseTime :: "golib \<Rightarrow> rune list \<Rightarrow> Time option" where
  "tryParseTime L candidate = tryParseTime_formats L candidate timeFormats"

subsection \<open>Strings\<close>

text \<open>
  \<^verbatim>\<open>strings.Index(s, ".")\<close> and \<^verbatim>\<open>strings.Split(s, ".")\<close> for a separator of one
  rune. Go's index counts bytes and the model's counts runes: the two agree on \<open>-1\<close>
  and on \<open>0\<close>, and the code only tests the index against \<open>0\<close>.
\<close>

fun strings_Index :: "rune list \<Rightarrow> rune \<Rightarrow> int" where
  "strings_Index [] sep = - 1"
| "strings_Index (c # cs) sep =
     (if c = sep then 0
      else if strings_Index cs sep < 0 then - 1 else strings_Index cs sep + 1)"

fun strings_Split :: "rune list \<Rightarrow> rune \<Rightarrow> rune list list" where
  "strings_Split [] sep = [[]]"
| "strings_Split (c # cs) sep =
     (if c = sep then [] # strings_Split cs sep
      else (case strings_Split cs sep of
              [] \<Rightarrow> [[c]]
            | x # xs \<Rightarrow> (c # x) # xs))"

subsection \<open>Reading one token\<close>

type_synonym readResult = "panic + ((ExpressionToken \<times> error option \<times> bool) \<times> lexerStream)"

text \<open>
  The end of \<^verbatim>\<open>readToken\<close>, reached by every \<^verbatim>\<open>break\<close> and by the end of the
  loop: the fields of \<^verbatim>\<open>ret\<close> are set and \<^verbatim>\<open>found\<close> is \<^verbatim>\<open>kind != UNKNOWN\<close>.
\<close>

definition emitToken ::
  "ExpressionToken \<Rightarrow> TokenKind \<Rightarrow> TokenValue \<Rightarrow> rune list \<Rightarrow> lexerStream \<Rightarrow> readResult" where
  "emitToken ret kind tokenValue tokenString stream =
     Inr ((ret\<lparr>Kind := kind, Value := tokenValue, Raw := tokenString,
               End := position stream\<rparr>, None, kind \<noteq> UNKNOWN), stream)"

text \<open>
  The error returns
  \<^verbatim>\<open>return ExpressionToken{Start: position, End: stream.position}, errors.New(...), false\<close>.
\<close>

definition failToken :: "int \<Rightarrow> lexerStream \<Rightarrow> error \<Rightarrow> readResult" where
  "failToken pos stream err =
     Inr ((zeroToken\<lparr>Start := pos, End := position stream\<rparr>, Some err, False), stream)"

text \<open>The numeric constant, lines 85 to 116.\<close>

definition readToken_hex :: "golib \<Rightarrow> lexerStream \<Rightarrow> int \<Rightarrow> ExpressionToken \<Rightarrow> readResult" where
  "readToken_hex L stream pos ret =
     (case readUntilFalse L stream False True True (isHexDigit L) [] of
        Inl p \<Rightarrow> Inl p
      | Inr ((tokenString, _), s1) \<Rightarrow>
          (case ParseUint16 tokenString of
             None \<Rightarrow> failToken pos s1 (HexParseError tokenString)
           | Some tokenValueInt \<Rightarrow>
               emitToken ret NUMERIC (VFloat (float64_of_uint64 tokenValueInt)) tokenString s1))"

definition readToken_float :: "golib \<Rightarrow> lexerStream \<Rightarrow> int \<Rightarrow> ExpressionToken \<Rightarrow> readResult" where
  "readToken_float L stream pos ret =
     (case readTokenUntilFalse L stream (isNumeric L) of
        Inl p \<Rightarrow> Inl p
      | Inr (tokenString, s1) \<Rightarrow>
          (case ParseFloat L tokenString of
             None \<Rightarrow> failToken pos s1 (NumericParseError tokenString)
           | Some tokenValue \<Rightarrow> emitToken ret NUMERIC (VFloat tokenValue) tokenString s1))"

definition readToken_numeric ::
  "golib \<Rightarrow> lexerStream \<Rightarrow> int \<Rightarrow> ExpressionToken \<Rightarrow> rune \<Rightarrow> readResult" where
  "readToken_numeric L stream pos ret character =
     (if canRead stream \<and> character = rune CHR ''0'' then
        (case readCharacter stream of
           Inl p \<Rightarrow> Inl p
         | Inr (character', s1) \<Rightarrow>
             if canRead s1 \<and> character' = rune CHR ''x'' then readToken_hex L s1 pos ret
             else readToken_float L (rewind s1 1) pos ret)
      else readToken_float L stream pos ret)"

text \<open>The escaped variable, lines 128 to 140.\<close>

definition readToken_bracket :: "golib \<Rightarrow> lexerStream \<Rightarrow> int \<Rightarrow> ExpressionToken \<Rightarrow> readResult" where
  "readToken_bracket L stream pos ret =
     (case readUntilFalse L stream True False True isNotClosingBracket [] of
        Inl p \<Rightarrow> Inl p
      | Inr ((tokenString, completed), s1) \<Rightarrow>
          if \<not> completed then failToken pos s1 UnclosedParameterBracket
          else emitToken ret VARIABLE (VString tokenString) tokenString (rewind s1 (- 1)))"

text \<open>
  The letter-led run, lines 143 to 205. \<^verbatim>\<open>wordKind\<close> is the chain of assignments to
  \<^verbatim>\<open>kind\<close> and \<^verbatim>\<open>tokenValue\<close> up to the function lookup, each overwriting the one
  before (a pair of kind and value after each step); the accessor test follows and
  overwrites them once more.
\<close>

definition wordKind ::
  "rune list \<Rightarrow> (rune list \<rightharpoonup> ExpressionFunction) \<Rightarrow> TokenKind \<times> TokenValue" where
  "wordKind tokenString functions =
     (let variable = (VARIABLE, VString tokenString);
          boolean =
            (if snd variable = VString (runes ''true'') then (BOOLEAN, VBool True)
             else if snd variable = VString (runes ''false'') then (BOOLEAN, VBool False)
             else variable);
          textual =
            (if snd boolean = VString (runes ''in'') \<or> snd boolean = VString (runes ''IN'')
             then (COMPARATOR, VString (runes ''in''))
             else boolean)
      in case functions tokenString of
           Some function \<Rightarrow> (FUNCTION, VFunction function)
         | None \<Rightarrow> textual)"

text \<open>The loop over \<^verbatim>\<open>splits[1:]\<close>: the first segment that upper-casing changes.\<close>

fun unexportedField :: "golib \<Rightarrow> rune list list \<Rightarrow> rune list option" where
  "unexportedField L [] = None"
| "unexportedField L (split # splits) =
     (if ToUpper L (getFirstRune split) \<noteq> getFirstRune split then Some split
      else unexportedField L splits)"

definition readToken_letter ::
  "golib \<Rightarrow> lexerStream \<Rightarrow> int \<Rightarrow> ExpressionToken \<Rightarrow> (rune list \<rightharpoonup> ExpressionFunction)
     \<Rightarrow> readResult" where
  "readToken_letter L stream pos ret functions =
     (case readTokenUntilFalse L stream (isVariableName L) of
        Inl p \<Rightarrow> Inl p
      | Inr (tokenString, s1) \<Rightarrow>
          if 0 < strings_Index tokenString (rune CHR ''.'') then
            (if last tokenString = rune CHR ''.''
             then failToken pos s1 (HangingAccessor tokenString)
             else case unexportedField L (tl (strings_Split tokenString (rune CHR ''.''))) of
                    Some split \<Rightarrow> failToken pos s1 (UnexportedField split tokenString)
                  | None \<Rightarrow>
                      emitToken ret ACCESSOR
                        (VStrings (strings_Split tokenString (rune CHR ''.''))) tokenString s1)
          else emitToken ret (fst (wordKind tokenString functions))
                 (snd (wordKind tokenString functions)) tokenString s1)"

text \<open>The quoted literal, lines 207 to 227.\<close>

definition readToken_quote :: "golib \<Rightarrow> lexerStream \<Rightarrow> int \<Rightarrow> ExpressionToken \<Rightarrow> readResult" where
  "readToken_quote L stream pos ret =
     (case readUntilFalse L stream True False True isNotQuote [] of
        Inl p \<Rightarrow> Inl p
      | Inr ((tokenString, completed), s1) \<Rightarrow>
          if \<not> completed then failToken pos s1 UnclosedStringLiteral
          else (case tryParseTime L tokenString of
                  Some tokenTime \<Rightarrow>
                    emitToken ret TIME (VTime tokenTime) tokenString (rewind s1 (- 1))
                | None \<Rightarrow>
                    emitToken ret STRING (VString tokenString) tokenString (rewind s1 (- 1))))"

text \<open>The symbol, lines 244 to 285.\<close>

definition readToken_symbol ::
  "golib \<Rightarrow> tables \<Rightarrow> lexerStream \<Rightarrow> lexerState \<Rightarrow> ExpressionToken \<Rightarrow> readResult" where
  "readToken_symbol L T stream state ret =
     (case readTokenUntilFalse L stream (isNotAlphanumeric L) of
        Inl p \<Rightarrow> Inl p
      | Inr (tokenString, s1) \<Rightarrow>
          if canTransitionTo state PREFIX \<and> tokenString \<in> prefixSymbols T
          then emitToken ret PREFIX (VString tokenString) tokenString s1
          else if tokenString \<in> modifierSymbols T
          then emitToken ret MODIFIER (VString tokenString) tokenString s1
          else if tokenString \<in> logicalSymbols T
          then emitToken ret LOGICALOP (VString tokenString) tokenString s1
          else if tokenString \<in> comparatorSymbols T
          then emitToken ret COMPARATOR (VString tokenString) tokenString s1
          else if tokenString \<in> ternarySymbols T
          then emitToken ret TERNARY (VString tokenString) tokenString s1
          else Inr ((ret, Some (InvalidToken tokenString), False), s1))"

text \<open>
  The body of the loop of \<^verbatim>\<open>readToken\<close> after the white space test: the dispatch on
  the character read at \<open>pos\<close>, with \<open>stream\<close> the stream after that read.
\<close>

definition readToken_dispatch ::
  "golib \<Rightarrow> tables \<Rightarrow> lexerStream \<Rightarrow> lexerState \<Rightarrow> (rune list \<rightharpoonup> ExpressionFunction)
     \<Rightarrow> ExpressionToken \<Rightarrow> int \<Rightarrow> rune \<Rightarrow> readResult" where
  "readToken_dispatch L T stream state functions ret pos character =
     (if isNumeric L character then readToken_numeric L stream pos ret character
      else if character = rune CHR '','' then
        emitToken ret SEPARATOR (VString (runes '','')) (runes '','') stream
      else if character = rune CHR ''['' then readToken_bracket L stream pos ret
      else if IsLetter L character then readToken_letter L stream pos ret functions
      else if \<not> isNotQuote character then readToken_quote L stream pos ret
      else if character = rune CHR ''('' then
        emitToken ret CLAUSE (VRune character) (runes ''('') stream
      else if character = rune CHR '')'' then
        emitToken ret CLAUSE_CLOSE (VRune character) (runes '')'') stream
      else readToken_symbol L T stream state ret)"

text \<open>
  The loop of \<^verbatim>\<open>readToken\<close>: it goes round only on white space. \<^verbatim>\<open>ret\<close> is the
  local the loop writes \<^verbatim>\<open>Start\<close> into; when the loop ends with nothing read,
  \<^verbatim>\<open>kind\<close> is still the zero value.
\<close>

function readToken_loop ::
  "golib \<Rightarrow> tables \<Rightarrow> lexerStream \<Rightarrow> lexerState \<Rightarrow> (rune list \<rightharpoonup> ExpressionFunction)
     \<Rightarrow> ExpressionToken \<Rightarrow> readResult" where
  "readToken_loop L T stream state functions ret =
     (if \<not> canRead stream then emitToken ret UNKNOWN VNil [] stream
      else case readCharacter stream of
        Inl p \<Rightarrow> Inl p
      | Inr (character, s1) \<Rightarrow>
          if IsSpace L character then
            readToken_loop L T s1 state functions (ret\<lparr>Start := position stream\<rparr>)
          else
            readToken_dispatch L T s1 state functions (ret\<lparr>Start := position stream\<rparr>)
              (position stream) character)"
  by pat_completeness auto
termination
  by (relation "measure (\<lambda>(L, T, s, st, f, r). nat (int (length (source s)) - position s))")
     (auto dest!: readCharacter_position)

declare readToken_loop.simps [simp del]

definition readToken ::
  "golib \<Rightarrow> tables \<Rightarrow> lexerStream \<Rightarrow> lexerState \<Rightarrow> (rune list \<rightharpoonup> ExpressionFunction)
     \<Rightarrow> readResult" where
  "readToken L T stream state functions = readToken_loop L T stream state functions zeroToken"

subsection \<open>The balance check and the tokenizer\<close>

text \<open>
  \<^verbatim>\<open>checkBalance\<close>: the loop over the tokens with the counter \<^verbatim>\<open>parens\<close>. The
  counter is a 64-bit \<^verbatim>\<open>int\<close> in Go; a slice has fewer than \<open>2^63\<close> elements, so it
  never wraps and is modelled by an integer.
\<close>

fun checkBalance_loop :: "ExpressionToken list \<Rightarrow> int \<Rightarrow> int" where
  "checkBalance_loop [] parens = parens"
| "checkBalance_loop (token # tokens) parens =
     (if Kind token = CLAUSE then checkBalance_loop tokens (parens + 1)
      else if Kind token = CLAUSE_CLOSE then checkBalance_loop tokens (parens - 1)
      else checkBalance_loop tokens parens)"

definition checkBalance :: "ExpressionToken list \<Rightarrow> error option" where
  "checkBalance tokens =
     (if checkBalance_loop tokens 0 \<noteq> 0 then Some UnbalancedParenthesis else None)"

text \<open>
  The loop of \<^verbatim>\<open>ParseTokens\<close>. It ends by a \<^verbatim>\<open>return ret, err\<close> from inside
  (\<open>Returned\<close>) or by leaving the loop (\<open>Scanned\<close>). A token that is found without
  the stream moving on would be read again for ever, so the loop is a partial function:
  \<open>None\<close> is the run that never returns.
\<close>

datatype scan = Returned "ExpressionToken list" error | Scanned "ExpressionToken list"

partial_function (option) ParseTokens_loop ::
  "golib \<Rightarrow> tables \<Rightarrow> lexerStream \<Rightarrow> lexerState \<Rightarrow> (rune list \<rightharpoonup> ExpressionFunction)
     \<Rightarrow> ExpressionToken list \<Rightarrow> (panic + scan) option" where
  "ParseTokens_loop L T stream state functions ret =
     (if \<not> canRead stream then Some (Inr (Scanned ret))
      else case readToken L T stream state functions of
        Inl p \<Rightarrow> Some (Inl p)
      | Inr ((token, err, found), s1) \<Rightarrow>
          (case err of
             Some e \<Rightarrow> Some (Inr (Returned ret e))
           | None \<Rightarrow>
               if \<not> found then Some (Inr (Scanned ret))
               else (case getLexerStateForToken T (Kind token) of
                       None \<Rightarrow> Some (Inr (Returned ret (NoLexerState (Kind token))))
                     | Some state' \<Rightarrow>
                         ParseTokens_loop L T s1 state' functions (ret @ [token]))))"

declare ParseTokens_loop.simps [code]

definition ParseTokens ::
  "golib \<Rightarrow> tables \<Rightarrow> rune list \<Rightarrow> (rune list \<rightharpoonup> ExpressionFunction)
     \<Rightarrow> (panic + (ExpressionToken list \<times> error option)) option" where
  "ParseTokens L T expression functions =
     (case ParseTokens_loop L T (newLexerStream expression) (initialState T) functions [] of
        None \<Rightarrow> None
      | Some (Inl p) \<Rightarrow> Some (Inl p)
      | Some (Inr (Returned ret err)) \<Rightarrow> Some (Inr (ret, Some err))
      | Some (Inr (Scanned ret)) \<Rightarrow>
          (case checkBalance ret of
             Some err \<Rightarrow> Some (Inr ([], Some err))
           | None \<Rightarrow> Some (Inr (ret, None))))"

text \<open>
  No symbol table holds the empty string: the condition under which a token that is
  found moves the stream on.
\<close>

definition noEmptySymbol :: "tables \<Rightarrow> bool" where
  "noEmptySymbol T \<longleftrightarrow>
     [] \<notin> prefixSymbols T \<and> [] \<notin> modifierSymbols T \<and> [] \<notin> logicalSymbols T
     \<and> [] \<notin> comparatorSymbols T \<and> [] \<notin> ternarySymbols T"

section \<open>The tree renderer\<close>

text \<open>
  Modelled from the spec: the syntax tree node of section 3, a token and its ordered
  children (the types \<^verbatim>\<open>ASTNode\<close> and its token are missing from the sources). The
  renderer reads the token's \<^verbatim>\<open>Kind\<close>, \<^verbatim>\<open>Content\<close> and \<^verbatim>\<open>Value\<close>; the first
  and the last are named \<open>TKind\<close> and \<open>TValue\<close> here, apart from the tokenizer's
  fields. Strings are Go strings, lists of bytes. The type of \<^verbatim>\<open>Value\<close> is a
  parameter, with \<^verbatim>\<open>fmt.Sprintf("%v", value)\<close> as the function \<open>formatValue\<close>.
  A node is a value: the tree has no nil pointer in it.
\<close>

record 'v Token =
  TKind :: TokenKind
  Content :: string
  TValue :: 'v

datatype 'v ASTNode = ASTNode (Token: "'v Token") (Children: "'v ASTNode list")

text \<open>\<^verbatim>\<open>strings.Repeat\<close> panics on a negative count; \<^verbatim>\<open>strings.Join\<close>.\<close>

definition strings_Repeat :: "string \<Rightarrow> int \<Rightarrow> panic + string" where
  "strings_Repeat s count =
     (if count < 0 then Inl NegativeRepeatCount else Inr (concat (replicate (nat count) s)))"

fun strings_Join :: "string list \<Rightarrow> string \<Rightarrow> string" where
  "strings_Join [] sep = []"
| "strings_Join [e] sep = e"
| "strings_Join (e # es) sep = e @ sep @ strings_Join es sep"

text \<open>The loops that append one rendered child after the other stop at the first panic.\<close>

fun appendAll :: "(panic + string) list \<Rightarrow> panic + string list" where
  "appendAll [] = Inr []"
| "appendAll (Inl p # rs) = Inl p"
| "appendAll (Inr s # rs) = (case appendAll rs of Inl p \<Rightarrow> Inl p | Inr ss \<Rightarrow> Inr (s # ss))"

text \<open>
  \<^verbatim>\<open>generate\<close>. \<^verbatim>\<open>ast.Children[0]\<close> and \<^verbatim>\<open>ast.Children[1]\<close> panic when the child
  is not there; the arguments of \<^verbatim>\<open>Sprintf\<close> are evaluated from left to right.
\<close>

fun generate :: "('v \<Rightarrow> string) \<Rightarrow> 'v ASTNode \<Rightarrow> int \<Rightarrow> panic + string" where
  "generate formatValue (ASTNode token children) indent =
     (case strings_Repeat ''  '' indent of
        Inl p \<Rightarrow> Inl p
      | Inr indentStr \<Rightarrow>
          (case TKind token of
             LOGICALOP \<Rightarrow>
               (case children of
                  [] \<Rightarrow> Inl IndexOutOfRange
                | child0 # rest \<Rightarrow>
                    (case generate formatValue child0 (indent + 1) of
                       Inl p \<Rightarrow> Inl p
                     | Inr left \<Rightarrow>
                         (case rest of
                            [] \<Rightarrow> Inl IndexOutOfRange
                          | child1 # _ \<Rightarrow>
                              (case generate formatValue child1 (indent + 1) of
                                 Inl p \<Rightarrow> Inl p
                               | Inr right \<Rightarrow>
                                   (if 0 < indent
                                    then Inr (''('' @ [CHR 0x0A] @ indentStr
                                           @ (left @ [CHR 0x0A] @ indentStr @ Content token
                                              @ [CHR 0x0A] @ indentStr @ right @ '' ''
                                              @ indentStr)
                                           @ [CHR 0x0A] @ indentStr @ '')'')
                                    else Inr (left @ [CHR 0x0A] @ indentStr @ Content token
                                              @ [CHR 0x0A] @ indentStr @ right @ '' ''
                                              @ indentStr))))))
           | COMPARATOR \<Rightarrow>
               (case children of
                  [] \<Rightarrow> Inl IndexOutOfRange
                | child0 # rest \<Rightarrow>
                    (case generate formatValue child0 (indent + 1) of
                       Inl p \<Rightarrow> Inl p
                     | Inr left \<Rightarrow>
                         (case rest of
                            [] \<Rightarrow> Inl IndexOutOfRange
                          | child1 # _ \<Rightarrow>
                              (case generate formatValue child1 (indent + 1) of
                                 Inl p \<Rightarrow> Inl p
                               | Inr right \<Rightarrow>
                                   Inr (left @ '' '' @ Content token @ '' '' @ right)))))
           | PREFIX \<Rightarrow>
               (case children of
                  [] \<Rightarrow> Inl IndexOutOfRange
                | child0 # _ \<Rightarrow>
                    (case generate formatValue child0 (indent + 1) of
                       Inl p \<Rightarrow> Inl p
                     | Inr operand \<Rightarrow>
                         Inr (Content token @ ''('' @ operand @ indentStr @ '')'')))
           | FUNCTION \<Rightarrow>
               (case appendAll (map (\<lambda>child. generate formatValue child 0) children) of
                  Inl p \<Rightarrow> Inl p
                | Inr params \<Rightarrow>
                    Inr (Content token @ ''( '' @ strings_Join params '', '' @ '' )''))
           | VARIABLE \<Rightarrow> Inr (formatValue (TValue token))
           | STRING \<Rightarrow> Inr (formatValue (TValue token))
           | NUMERIC \<Rightarrow> Inr (formatValue (TValue token))
           | ARRAY \<Rightarrow>
               (case appendAll (map (\<lambda>child. generate formatValue child (indent + 1)) children) of
                  Inl p \<Rightarrow> Inl p
                | Inr elements \<Rightarrow> Inr (''( '' @ strings_Join elements '', '' @ '' )''))
           | _ \<Rightarrow> Inr []))"

section \<open>The standard library and the tables on the examples\<close>

text \<open>
  What package \<^verbatim>\<open>unicode\<close> says on the ASCII range: the white space characters are
  tab, line feed, vertical tab, form feed, carriage return and space, the letters are
  \<open>A-Z\<close> and \<open>a-z\<close>, the digits are \<open>0-9\<close>, and the case mappings move a letter by 32.
\<close>

definition asciiUnicode :: "golib \<Rightarrow> bool" where
  "asciiUnicode L \<longleftrightarrow>
     (\<forall>c<128.
        IsSpace L c = (c \<in> {9, 10, 11, 12, 13, 32})
        \<and> IsLetter L c = (65 \<le> c \<and> c \<le> 90 \<or> 97 \<le> c \<and> c \<le> 122)
        \<and> IsDigit L c = (48 \<le> c \<and> c \<le> 57)
        \<and> ToUpper L c = (if 97 \<le> c \<and> c \<le> 122 then c - 32 else c)
        \<and> ToLower L c = (if 65 \<le> c \<and> c \<le> 90 then c + 32 else c))"

text \<open>
  A library for the examples: package \<^verbatim>\<open>unicode\<close> as it is on the ASCII range,
  \<^verbatim>\<open>ParseFloat\<close> on plain decimal literals (digits with at most one point and at least
  one digit, read exactly: the literals of the examples are floats), and no timestamp.
\<close>

fun decimalDigits :: "nat \<Rightarrow> rune list \<Rightarrow> nat option" where
  "decimalDigits acc [] = Some acc"
| "decimalDigits acc (c # cs) =
     (if 48 \<le> c \<and> c \<le> 57 then decimalDigits (10 * acc + (c - 48)) cs else None)"

definition decimalLiteral :: "rune list \<Rightarrow> real option" where
  "decimalLiteral s =
     (let whole = takeWhile (\<lambda>c. c \<noteq> rune CHR ''.'') s;
          rest = dropWhile (\<lambda>c. c \<noteq> rune CHR ''.'') s
      in if whole = [] \<and> length rest \<le> 1 then None
         else case (decimalDigits 0 whole, decimalDigits 0 (tl rest)) of
                (Some w, Some f) \<Rightarrow> Some (real w + real f / 10 ^ length (tl rest))
              | _ \<Rightarrow> None)"

definition goAscii :: golib where
  "goAscii =
     \<lparr>IsSpace = (\<lambda>c. c \<in> {9, 10, 11, 12, 13, 32}),
      IsLetter = (\<lambda>c. 65 \<le> c \<and> c \<le> 90 \<or> 97 \<le> c \<and> c \<le> 122),
      IsDigit = (\<lambda>c. 48 \<le> c \<and> c \<le> 57),
      ToUpper = (\<lambda>c. if 97 \<le> c \<and> c \<le> 122 then c - 32 else c),
      ToLower = (\<lambda>c. if 65 \<le> c \<and> c \<le> 90 then c + 32 else c),
      ParseFloat = decimalLiteral,
      ParseInLocation = (\<lambda>format candidate. None)\<rparr>"

text \<open>
  Tables for the examples, after section 4.2 of the spec (the tables of the code are not
  in the sources): every token kind has a lexer state; a prefix may follow the start of
  the expression, an opening parenthesis and an operator, and may not follow an operand.
\<close>

definition operandStart :: "TokenKind list" where
  "operandStart = [PREFIX, NUMERIC, BOOLEAN, VARIABLE, FUNCTION, ACCESSOR, STRING, TIME, CLAUSE]"

definition operandEnd :: "TokenKind list" where
  "operandEnd = [MODIFIER, COMPARATOR, LOGICALOP, TERNARY, SEPARATOR, CLAUSE_CLOSE]"

definition exampleState :: "TokenKind \<Rightarrow> lexerState" where
  "exampleState kind =
     \<lparr>stateKind = kind,
      validNextKinds =
        (if kind \<in> {UNKNOWN, CLAUSE, PREFIX, MODIFIER, COMPARATOR, LOGICALOP, TERNARY, SEPARATOR}
         then operandStart
         else if kind = FUNCTION then [CLAUSE]
         else operandEnd)\<rparr>"

definition exampleTables :: tables where
  "exampleTables =
     \<lparr>initialState = exampleState UNKNOWN,
      getLexerStateForToken = (\<lambda>kind. Some (exampleState kind)),
      prefixSymbols = runes ` {''-'', ''!'', ''~''},
      modifierSymbols = runes ` {''+'', ''-'', ''*'', ''/'', ''%'', ''**'', ''&'', ''|'', ''^'',
                                 ''>>'', ''<<''},
      logicalSymbols = runes ` {''&&'', ''||''},
      comparatorSymbols = runes ` {''=='', ''!='', ''>'', ''>='', ''<'', ''<='', ''=~'', ''!~''},
      ternarySymbols = runes ` {''?'', '':'', ''??''}\<rparr>"

definition exampleFunction :: ExpressionFunction where
  "exampleFunction = \<lparr>Name = runes ''f'', Parameters = [], ReturnType = runes ''float64''\<rparr>"

section \<open>The arity invariant, as the spec words it\<close>

text \<open>
  Every \<^verbatim>\<open>LOGICALOP\<close> and \<^verbatim>\<open>COMPARATOR\<close> node has at least two children and
  every \<^verbatim>\<open>PREFIX\<close> node at least one, all over the tree.
\<close>

fun arityOk :: "'v ASTNode \<Rightarrow> bool" where
  "arityOk (ASTNode token children) \<longleftrightarrow>
     (TKind token \<in> {LOGICALOP, COMPARATOR} \<longrightarrow> 2 \<le> length children)
     \<and> (TKind token = PREFIX \<longrightarrow> 1 \<le> length children)
     \<and> (\<forall>child \<in> set children. arityOk child)"

text \<open>A tree for the examples; its values are strings, printed as they are.\<close>

definition exampleLeft :: "string ASTNode" where
  "exampleLeft =
     ASTNode \<lparr>TKind = COMPARATOR, Content = ''>'', TValue = []\<rparr>
       [ASTNode \<lparr>TKind = VARIABLE, Content = ''a'', TValue = ''a''\<rparr> [],
        ASTNode \<lparr>TKind = NUMERIC, Content = ''1'', TValue = ''1''\<rparr> []]"

definition exampleRight :: "string ASTNode" where
  "exampleRight =
     ASTNode \<lparr>TKind = FUNCTION, Content = ''f'', TValue = []\<rparr>
       [ASTNode \<lparr>TKind = TIME, Content = ''t'', TValue = ''t''\<rparr> []]"

definition exampleAnd :: "string Token" where
  "exampleAnd = \<lparr>TKind = LOGICALOP, Content = ''&&'', TValue = []\<rparr>"

definition exampleTree :: "string ASTNode" where
  "exampleTree = ASTNode exampleAnd [exampleLeft, exampleRight]"

section \<open>The balance count, as the spec words it\<close>

text \<open>
  The count of the spec: \<open>+1\<close> for every \<^verbatim>\<open>CLAUSE\<close> token and \<open>-1\<close> for every
  \<^verbatim>\<open>CLAUSE_CLOSE\<close> token of the sequence.
\<close>

definition clauseCount :: "ExpressionToken list \<Rightarrow> int" where
  "clauseCount tokens =
     (\<Sum>token\<leftarrow>tokens. if Kind token = CLAUSE then 1
                      else if Kind token = CLAUSE_CLOSE then - 1 else 0)"

section \<open>Evaluation lemmas\<close>

lemma asciiUnicodeD:
  assumes "asciiUnicode L" "c < 128"
  shows "IsSpace L c = (c \<in> {9, 10, 11, 12, 13, 32})"
    and "IsLetter L c = (65 \<le> c \<and> c \<le> 90 \<or> 97 \<le> c \<and> c \<le> 122)"
    and "IsDigit L c = (48 \<le> c \<and> c \<le> 57)"
    and "ToUpper L c = (if 97 \<le> c \<and> c \<le> 122 then c - 32 else c)"
    and "ToLower L c = (if 65 \<le> c \<and> c \<le> 90 then c + 32 else c)"
  using assms unfolding asciiUnicode_def by blast+

lemma asciiUnicode_goAscii: "asciiUnicode goAscii"
  by (simp add: asciiUnicode_def goAscii_def)

lemmas stream_simps = canRead_def readCharacter_def rewind_def newLexerStream_def

lemmas class_simps = isHexDigit_def isNumeric_def isNotQuote_def isVariableName_def
  isNotAlphanumeric_def isNotClosingBracket_def getFirstRune_def rune_def runes_def

lemmas token_simps = readToken_def readToken_dispatch_def readToken_numeric_def readToken_hex_def readToken_float_def
  readToken_bracket_def readToken_letter_def readToken_quote_def readToken_symbol_def
  readTokenUntilFalse_def emitToken_def failToken_def zeroToken_def

lemmas run_simps = ParseTokens_def ParseTokens_loop.simps readToken_loop.simps
  readUntilFalse.simps checkBalance_def

section \<open>The end of the input\<close>

text \<open>On a stream that holds nothing but white space, \<^verbatim>\<open>readToken\<close> finds no token.\<close>

lemma readToken_loop_spaces:
  "0 \<le> position s \<Longrightarrow> \<forall>c \<in> set (drop (nat (position s)) (source s)). IsSpace L c \<Longrightarrow>
   \<exists>tok s'. readToken_loop L T s st fns ret = Inr ((tok, None, False), s')"
proof (induction L T s st fns ret rule: readToken_loop.induct)
  case (1 L T stream state fns ret)
  show ?case
  proof (cases "canRead stream")
    case False
    then show ?thesis by (subst readToken_loop.simps) (simp add: emitToken_def)
  next
    case True
    then obtain c s1 where rc: "readCharacter stream = Inr (c, s1)"
      and c: "c = source stream ! nat (position stream)"
      and s1: "s1 = stream\<lparr>position := position stream + 1\<rparr>"
      using "1.prems"(1) by (auto simp: canRead_def readCharacter_def)
    from True "1.prems" have "c \<in> set (drop (nat (position stream)) (source stream))"
      unfolding c canRead_def
      by (metis (no_types, lifting) Cons_nth_drop_Suc list.set_intros(1) nat_less_iff)
    with "1.prems" have sp: "IsSpace L c" by blast
    have sub: "set (drop (nat (position s1)) (source s1))
        \<subseteq> set (drop (nat (position stream)) (source stream))"
      using "1.prems"(1) unfolding s1 by (simp add: nat_add_distrib set_drop_subset_set_drop)
    have "\<exists>tok s'. readToken_loop L T s1 state fns (ret\<lparr>Start := position stream\<rparr>)
        = Inr ((tok, None, False), s')"
      using "1.IH"[of "(c, s1)" c s1] True rc sp "1.prems" sub s1 by auto
    then show ?thesis using True rc sp by (subst readToken_loop.simps) simp
  qed
qed

lemma ParseTokens_spaces:
  assumes "\<forall>c \<in> set ws. IsSpace L c"
  shows "ParseTokens L T ws fns = Some (Inr ([], None))"
proof -
  obtain tok s' where
    "readToken_loop L T (newLexerStream ws) (initialState T) fns zeroToken
       = Inr ((tok, None, False), s')"
    using readToken_loop_spaces[of "newLexerStream ws" L T "initialState T" fns zeroToken] assms
    by (auto simp: newLexerStream_def)
  then have "ParseTokens_loop L T (newLexerStream ws) (initialState T) fns []
      = Some (Inr (Scanned []))"
    by (subst ParseTokens_loop.simps) (simp add: readToken_def)
  then show ?thesis by (simp add: ParseTokens_def checkBalance_def)
qed

text \<open>
  Claim C7. The tokenizer applied to the empty string returns the empty token sequence
  and no error, and so it does on an input made of white space only: it returns, with
  neither a panic nor an error.
\<close>

theorem ParseTokens_empty_or_whitespace:
  "ParseTokens L T [] fns = Some (Inr ([], None))
   \<and> ((\<forall>c \<in> set ws. IsSpace L c) \<longrightarrow> ParseTokens L T ws fns = Some (Inr ([], None)))"
  using ParseTokens_spaces[of "[]" L T fns] ParseTokens_spaces[of ws L T fns] by simp

theorem ParseTokens_empty_or_whitespace_witness:
  "IsSpace goAscii 32 \<and> IsSpace goAscii 9
   \<and> ParseTokens goAscii exampleTables [] Map.empty = Some (Inr ([], None))
   \<and> ParseTokens goAscii exampleTables [32, 9, 32] Map.empty = Some (Inr ([], None))"
  using ParseTokens_empty_or_whitespace[of goAscii exampleTables Map.empty "[32, 9, 32]"]
  by (simp add: goAscii_def)

section \<open>The tokenizer returns\<close>

text \<open>
  A token that is found moves the stream on when no table holds the empty string, and
  then the loop of \<^verbatim>\<open>ParseTokens\<close> ends on every input.
\<close>

lemma readUntilFalse_progress:
  "readUntilFalse L s iw bw ae cond buf = Inr ((run, c), s') \<Longrightarrow>
     source s' = source s
     \<and> position s + int (length run) - int (length buf) \<le> position s'
     \<and> length buf \<le> length run"
proof (induction L s iw bw ae cond buf rule: readUntilFalse.induct)
  case (1 L stream iw bw ae cond buf)
  show ?case
  proof (cases "canRead stream")
    case False
    with "1.prems" show ?thesis by (subst (asm) readUntilFalse.simps) simp
  next
    case True
    show ?thesis
    proof (cases "readCharacter stream")
      case (Inl p)
      with True "1.prems" show ?thesis by (subst (asm) readUntilFalse.simps) simp
    next
      case (Inr cs)
      obtain ch s1 where cs: "cs = (ch, s1)" by (cases cs)
      have rc: "readCharacter stream = Inr (ch, s1)" using Inr cs by simp
      note p1 = readCharacter_position[OF rc]
      have nn: "\<not> \<not> canRead stream" using True by simp
      consider (esc) "ae \<and> ch = rune (CHR 0x5C)"
        | (brk) "\<not> (ae \<and> ch = rune (CHR 0x5C))" "IsSpace L ch \<and> bw \<and> buf \<noteq> []"
        | (skip) "\<not> (ae \<and> ch = rune (CHR 0x5C))" "\<not> (IsSpace L ch \<and> bw \<and> buf \<noteq> [])"
            "IsSpace L ch \<and> \<not> iw"
        | (take) "\<not> (ae \<and> ch = rune (CHR 0x5C))" "\<not> (IsSpace L ch \<and> bw \<and> buf \<noteq> [])"
            "\<not> (IsSpace L ch \<and> \<not> iw)" "cond ch"
        | (stop) "\<not> (ae \<and> ch = rune (CHR 0x5C))" "\<not> (IsSpace L ch \<and> bw \<and> buf \<noteq> [])"
            "\<not> (IsSpace L ch \<and> \<not> iw)" "\<not> cond ch"
        by blast
      then show ?thesis
      proof cases
        case esc
        show ?thesis
        proof (cases "readCharacter s1")
          case (Inl p)
          with True rc esc "1.prems" show ?thesis
            by (subst (asm) readUntilFalse.simps) simp
        next
          case (Inr es)
          obtain e s2 where es: "es = (e, s2)" by (cases es)
          have rc2: "readCharacter s1 = Inr (e, s2)" using Inr es by simp
          note p2 = readCharacter_position[OF rc2]
          have "readUntilFalse L s2 iw bw ae cond (buf @ [e]) = Inr ((run, c), s')"
            using True rc rc2 esc "1.prems" by (subst (asm) readUntilFalse.simps) simp
          from "1.IH"(1)[OF nn rc refl esc rc2 refl this] p1 p2 show ?thesis by simp
        qed
      next
        case brk
        with True rc "1.prems" p1 show ?thesis
          by (subst (asm) readUntilFalse.simps) auto
      next
        case skip
        have "readUntilFalse L s1 iw bw ae cond buf = Inr ((run, c), s')"
          using True rc skip "1.prems" by (subst (asm) readUntilFalse.simps) auto
        from "1.IH"(2)[OF nn rc refl skip(1) skip(2) skip(3) this] p1 show ?thesis by simp
      next
        case take
        have "readUntilFalse L s1 iw bw ae cond (buf @ [ch]) = Inr ((run, c), s')"
          using True rc take "1.prems" by (subst (asm) readUntilFalse.simps) auto
        from "1.IH"(3)[OF nn rc refl take(1) take(2) take(3) take(4) this] p1
        show ?thesis by simp
      next
        case stop
        with True rc "1.prems" p1 show ?thesis
          by (subst (asm) readUntilFalse.simps) (auto simp: rewind_def)
      qed
    qed
  qed
qed


lemma rewind_after_read: "readCharacter s = Inr (c, s1) \<Longrightarrow> rewind s1 1 = s"
  by (auto simp: readCharacter_def rewind_def split: if_splits)

lemma readTokenUntilFalse_progress:
  assumes "readCharacter s = Inr (c, s1)" "readTokenUntilFalse L s1 cond = Inr (run, s2)"
  shows "source s2 = source s \<and> position s + int (length run) \<le> position s2"
proof -
  from assms obtain fl where "readUntilFalse L s False True True cond [] = Inr ((run, fl), s2)"
    by (auto simp: readTokenUntilFalse_def rewind_after_read split: sum.splits)
  from readUntilFalse_progress[OF this] show ?thesis by simp
qed

lemma readTokenUntilFalse_nonempty:
  assumes rc: "readCharacter s = Inr (c, s1)" and sp: "\<not> IsSpace L c" and cond: "cond c"
    and run: "readTokenUntilFalse L s1 cond = Inr (run, s2)"
  shows "run \<noteq> []"
proof -
  from rc run obtain fl where r: "readUntilFalse L s False True True cond [] = Inr ((run, fl), s2)"
    by (auto simp: readTokenUntilFalse_def rewind_after_read split: sum.splits)
  from rc have cr: "canRead s" by (auto simp: readCharacter_def canRead_def split: if_splits)
  show ?thesis
  proof (cases "c = rune (CHR 0x5C)")
    case True
    with r cr rc obtain e s3 where "readCharacter s1 = Inr (e, s3)"
      and "readUntilFalse L s3 False True True cond [e] = Inr ((run, fl), s2)"
      by (subst (asm) readUntilFalse.simps) (auto split: sum.splits)
    from readUntilFalse_progress[OF this(2)] show ?thesis by auto
  next
    case False
    with r cr rc sp cond have "readUntilFalse L s1 False True True cond [c] = Inr ((run, fl), s2)"
      by (subst (asm) readUntilFalse.simps) auto
    from readUntilFalse_progress[OF this] show ?thesis by auto
  qed
qed

lemma readToken_dispatch_progress:
  assumes rc: "readCharacter s = Inr (c, s1)" and sp: "\<not> IsSpace L c"
    and T: "noEmptySymbol T"
    and d: "readToken_dispatch L T s1 st fns ret pos c = Inr ((tok, None, True), s2)"
  shows "source s2 = source s \<and> position s < position s2"
proof -
  note p1 = readCharacter_position[OF rc]
  consider (num) "isNumeric L c"
    | (comma) "\<not> isNumeric L c" "c = rune CHR '',''"
    | (bracket) "\<not> isNumeric L c" "c \<noteq> rune CHR '',''" "c = rune CHR ''[''"
    | (letter) "\<not> isNumeric L c" "c \<noteq> rune CHR '',''" "c \<noteq> rune CHR ''[''" "IsLetter L c"
    | (quote) "\<not> isNumeric L c" "c \<noteq> rune CHR '',''" "c \<noteq> rune CHR ''[''" "\<not> IsLetter L c"
        "\<not> isNotQuote c"
    | (paren) "\<not> isNumeric L c" "c \<noteq> rune CHR '',''" "c \<noteq> rune CHR ''[''" "\<not> IsLetter L c"
        "isNotQuote c" "c = rune CHR ''('' \<or> c = rune CHR '')''"
    | (symbol) "\<not> isNumeric L c" "c \<noteq> rune CHR '',''" "c \<noteq> rune CHR ''[''" "\<not> IsLetter L c"
        "isNotQuote c" "c \<noteq> rune CHR ''(''" "c \<noteq> rune CHR '')''"
    by blast
  then show ?thesis
  proof cases
    case num
    with d have n: "readToken_numeric L s1 pos ret c = Inr ((tok, None, True), s2)"
      by (simp add: readToken_dispatch_def)
    have float: "source s2 = source s \<and> position s < position s2"
      if "readToken_float L s1 pos ret = Inr ((tok, None, True), s2)"
    proof -
      from that obtain run where r: "readTokenUntilFalse L s1 (isNumeric L) = Inr (run, s2)"
        by (auto simp: readToken_float_def emitToken_def failToken_def
            split: sum.splits option.splits)
      from readTokenUntilFalse_progress[OF rc r] readTokenUntilFalse_nonempty[OF rc sp num r]
      show ?thesis by (cases run) auto
    qed
    show ?thesis
    proof (cases "canRead s1 \<and> c = rune CHR ''0''")
      case False
      with n have "readToken_float L s1 pos ret = Inr ((tok, None, True), s2)"
        by (auto simp: readToken_numeric_def)
      then show ?thesis by (rule float)
    next
      case True
      then obtain c' s1' where rc': "readCharacter s1 = Inr (c', s1')"
        using p1 by (auto simp: readCharacter_def canRead_def)
      note p2 = readCharacter_position[OF rc']
      show ?thesis
      proof (cases "canRead s1' \<and> c' = rune CHR ''x''")
        case hex: True
        with True rc' n have "readToken_hex L s1' pos ret = Inr ((tok, None, True), s2)"
          by (simp add: readToken_numeric_def)
        then obtain run fl where
          "readUntilFalse L s1' False True True (isHexDigit L) [] = Inr ((run, fl), s2)"
          by (auto simp: readToken_hex_def emitToken_def failToken_def
              split: sum.splits option.splits)
        from readUntilFalse_progress[OF this] p1 p2 show ?thesis by simp
      next
        case False
        with True rc' n have "readToken_float L (rewind s1' 1) pos ret = Inr ((tok, None, True), s2)"
          by (auto simp: readToken_numeric_def)
        then have "readToken_float L s1 pos ret = Inr ((tok, None, True), s2)"
          by (simp add: rewind_after_read[OF rc'])
        then show ?thesis by (rule float)
      qed
    qed
  next
    case comma
    with d p1 show ?thesis by (auto simp: readToken_dispatch_def emitToken_def)
  next
    case bracket
    with d have "readToken_bracket L s1 pos ret = Inr ((tok, None, True), s2)"
      by (simp add: readToken_dispatch_def)
    then obtain run s3 where
      "readUntilFalse L s1 True False True isNotClosingBracket [] = Inr ((run, True), s3)"
      and "s2 = rewind s3 (- 1)"
      by (auto simp: readToken_bracket_def emitToken_def failToken_def
          split: sum.splits if_splits)
    from readUntilFalse_progress[OF this(1)] this(2) p1 show ?thesis
      by (simp add: rewind_def)
  next
    case letter
    with d have "readToken_letter L s1 pos ret fns = Inr ((tok, None, True), s2)"
      by (simp add: readToken_dispatch_def)
    then obtain run where r: "readTokenUntilFalse L s1 (isVariableName L) = Inr (run, s2)"
      by (auto simp: readToken_letter_def emitToken_def failToken_def
          split: sum.splits option.splits if_splits)
    have "isVariableName L c" using letter by (simp add: isVariableName_def)
    from readTokenUntilFalse_progress[OF rc r] readTokenUntilFalse_nonempty[OF rc sp this r]
    show ?thesis by (cases run) auto
  next
    case quote
    with d have "readToken_quote L s1 pos ret = Inr ((tok, None, True), s2)"
      by (simp add: readToken_dispatch_def)
    then obtain run s3 where
      "readUntilFalse L s1 True False True isNotQuote [] = Inr ((run, True), s3)"
      and "s2 = rewind s3 (- 1)"
      by (auto simp: readToken_quote_def emitToken_def failToken_def
          split: sum.splits if_splits option.splits)
    from readUntilFalse_progress[OF this(1)] this(2) p1 show ?thesis
      by (simp add: rewind_def)
  next
    case paren
    with d p1 show ?thesis
      by (auto simp: readToken_dispatch_def emitToken_def split: if_splits)
  next
    case symbol
    with d have sy: "readToken_symbol L T s1 st ret = Inr ((tok, None, True), s2)"
      by (simp add: readToken_dispatch_def)
    then obtain run where r: "readTokenUntilFalse L s1 (isNotAlphanumeric L) = Inr (run, s2)"
      by (auto simp: readToken_symbol_def emitToken_def split: sum.splits if_splits)
    with sy T have "run \<noteq> []"
      by (auto simp: readToken_symbol_def emitToken_def noEmptySymbol_def split: if_splits)
    with readTokenUntilFalse_progress[OF rc r] show ?thesis by (cases run) auto
  qed
qed


lemma readToken_loop_progress:
  "readToken_loop L T s st fns ret = Inr ((tok, None, True), s') \<Longrightarrow> noEmptySymbol T
     \<Longrightarrow> source s' = source s \<and> position s < position s'"
proof (induction L T s st fns ret rule: readToken_loop.induct)
  case (1 L T stream state fns ret)
  show ?case
  proof (cases "canRead stream")
    case False
    with "1.prems" show ?thesis
      by (subst (asm) readToken_loop.simps) (simp add: emitToken_def)
  next
    case True
    show ?thesis
    proof (cases "readCharacter stream")
      case (Inl p)
      with True "1.prems" show ?thesis by (subst (asm) readToken_loop.simps) simp
    next
      case (Inr cs)
      obtain c s1 where cs: "cs = (c, s1)" by (cases cs)
      have rc: "readCharacter stream = Inr (c, s1)" using Inr cs by simp
      note p1 = readCharacter_position[OF rc]
      have nn: "\<not> \<not> canRead stream" using True by simp
      show ?thesis
      proof (cases "IsSpace L c")
        case sp: True
        have "readToken_loop L T s1 state fns (ret\<lparr>Start := position stream\<rparr>)
            = Inr ((tok, None, True), s')"
          using "1.prems"(1) True rc sp by (subst (asm) readToken_loop.simps) simp
        from "1.IH"[OF nn rc refl sp this "1.prems"(2)] p1 show ?thesis by simp
      next
        case False
        with "1.prems"(1) True rc
        have "readToken_dispatch L T s1 state fns (ret\<lparr>Start := position stream\<rparr>)
            (position stream) c = Inr ((tok, None, True), s')"
          by (subst (asm) readToken_loop.simps) simp
        from readToken_dispatch_progress[OF rc False "1.prems"(2) this] show ?thesis .
      qed
    qed
  qed
qed

lemma ParseTokens_loop_returns:
  assumes T: "noEmptySymbol T"
  shows "\<exists>y. ParseTokens_loop L T s st fns ret = Some y"
proof (induction "nat (int (length (source s)) - position s)" arbitrary: s st ret
    rule: less_induct)
  case less
  show ?case
  proof (cases "canRead s")
    case False
    then show ?thesis by (subst ParseTokens_loop.simps) simp
  next
    case True
    show ?thesis
    proof (cases "readToken L T s st fns")
      case (Inl p)
      with True show ?thesis by (subst ParseTokens_loop.simps) simp
    next
      case (Inr res)
      obtain tok err found s1 where res: "res = ((tok, err, found), s1)"
        by (cases res) auto
      show ?thesis
      proof (cases "err = None \<and> found \<and> getLexerStateForToken T (Kind tok) \<noteq> None")
        case False
        with True Inr res show ?thesis
          by (subst ParseTokens_loop.simps) (auto split: option.splits)
      next
        case go: True
        then obtain st' where st': "getLexerStateForToken T (Kind tok) = Some st'" by auto
        from Inr res go have "readToken_loop L T s st fns zeroToken = Inr ((tok, None, True), s1)"
          by (simp add: readToken_def)
        from readToken_loop_progress[OF this T]
        have "source s1 = source s" "position s < position s1" by simp_all
        with True have "nat (int (length (source s1)) - position s1)
            < nat (int (length (source s)) - position s)"
          by (simp add: canRead_def)
        from less[OF this] obtain y where
          "ParseTokens_loop L T s1 st' fns (ret @ [tok]) = Some y" by blast
        with True Inr res go st' show ?thesis
          by (subst ParseTokens_loop.simps) simp
      qed
    qed
  qed
qed

lemma ParseTokens_returns:
  "noEmptySymbol T \<Longrightarrow> \<exists>res. ParseTokens L T x fns = Some res"
  using ParseTokens_loop_returns[of T L "newLexerStream x" "initialState T" fns "[]"]
  by (auto simp: ParseTokens_def split: sum.splits scan.splits option.splits)

section \<open>The balance check\<close>

lemma checkBalance_loop_clauseCount:
  "checkBalance_loop tokens parens = parens + clauseCount tokens"
  by (induction tokens arbitrary: parens) (simp_all add: clauseCount_def)

lemma checkBalance_clauseCount:
  "checkBalance tokens = (if clauseCount tokens \<noteq> 0 then Some UnbalancedParenthesis else None)"
  by (simp add: checkBalance_def checkBalance_loop_clauseCount)

lemma readToken_numeric_error:
  "readToken_numeric L s pos ret c = Inr ((tok, err, found), s') \<Longrightarrow> err \<noteq> Some UnbalancedParenthesis"
  by (auto simp: readToken_numeric_def readToken_hex_def readToken_float_def emitToken_def
      failToken_def split: if_splits sum.splits option.splits prod.splits)

lemma readToken_bracket_error:
  "readToken_bracket L s pos ret = Inr ((tok, err, found), s') \<Longrightarrow> err \<noteq> Some UnbalancedParenthesis"
  by (auto simp: readToken_bracket_def emitToken_def
      failToken_def split: if_splits sum.splits option.splits prod.splits)

lemma readToken_letter_error:
  "readToken_letter L s pos ret fns = Inr ((tok, err, found), s') \<Longrightarrow> err \<noteq> Some UnbalancedParenthesis"
  by (auto simp: readToken_letter_def emitToken_def
      failToken_def split: if_splits sum.splits option.splits prod.splits)

lemma readToken_quote_error:
  "readToken_quote L s pos ret = Inr ((tok, err, found), s') \<Longrightarrow> err \<noteq> Some UnbalancedParenthesis"
  by (auto simp: readToken_quote_def emitToken_def
      failToken_def split: if_splits sum.splits option.splits prod.splits)

lemma readToken_symbol_error:
  "readToken_symbol L T s st ret = Inr ((tok, err, found), s') \<Longrightarrow> err \<noteq> Some UnbalancedParenthesis"
  by (auto simp: readToken_symbol_def emitToken_def
      failToken_def split: if_splits sum.splits option.splits prod.splits)

lemma readToken_dispatch_error:
  "readToken_dispatch L T s st fns ret pos c = Inr ((tok, err, found), s')
     \<Longrightarrow> err \<noteq> Some UnbalancedParenthesis"
  unfolding readToken_dispatch_def
  by (simp add: emitToken_def split: if_splits)
     (blast dest: readToken_numeric_error readToken_bracket_error readToken_letter_error
        readToken_quote_error readToken_symbol_error)+

lemma readToken_loop_error:
  "readToken_loop L T s st fns ret = Inr ((tok, err, found), s') \<Longrightarrow> err \<noteq> Some UnbalancedParenthesis"
proof (induction L T s st fns ret rule: readToken_loop.induct)
  case (1 L T stream state fns ret)
  show ?case
  proof (cases "canRead stream")
    case False
    with "1.prems" show ?thesis
      by (subst (asm) readToken_loop.simps) (auto simp: emitToken_def)
  next
    case True
    show ?thesis
    proof (cases "readCharacter stream")
      case (Inl p)
      with True "1.prems" show ?thesis
        by (subst (asm) readToken_loop.simps) simp
    next
      case (Inr cs)
      obtain c s1 where cs: "cs = (c, s1)" by (cases cs)
      show ?thesis
      proof (cases "IsSpace L c")
        case sp: True
        have nn: "\<not> \<not> canRead stream" using True by simp
        have rc: "readCharacter stream = Inr (c, s1)" using Inr cs by simp
        have "readToken_loop L T s1 state fns (ret\<lparr>Start := position stream\<rparr>)
            = Inr ((tok, err, found), s')"
          using "1.prems" True rc sp by (subst (asm) readToken_loop.simps) simp
        from "1.IH"[OF nn rc refl sp this] show ?thesis .
      next
        case False
        with "1.prems" True Inr cs
        have "readToken_dispatch L T s1 state fns (ret\<lparr>Start := position stream\<rparr>)
            (position stream) c = Inr ((tok, err, found), s')"
          by (subst (asm) readToken_loop.simps) simp
        then show ?thesis by (rule readToken_dispatch_error)
      qed
    qed
  qed
qed

lemma ParseTokens_loop_error:
  assumes "ParseTokens_loop L T s st fns ret = Some y"
  shows "y \<noteq> Inr (Returned ret' UnbalancedParenthesis)"
proof (rule ParseTokens_loop.raw_induct[OF _ assms], goal_cases)
  case (1 loop L T s st fns ret y)
  from "1"(2) show ?case
    by (auto simp: readToken_def split: if_splits sum.splits prod.splits option.splits
        dest: readToken_loop_error "1"(1))
qed

text \<open>
  Claim C4. When the scan of the input is complete, with the token sequence \<open>ts\<close>, the
  tokenizer counts \<^verbatim>\<open>CLAUSE\<close> as \<open>+1\<close> and \<^verbatim>\<open>CLAUSE_CLOSE\<close> as \<open>-1\<close> over \<open>ts\<close>
  and fails with the unbalanced-parenthesis error when the count is not zero, and
  returns \<open>ts\<close> otherwise; it returns that error in no other case. On \<^verbatim>\<open>(1 + 2\<close>
  it fails with that error, for every library that is Go's on ASCII and parses \<^verbatim>\<open>1\<close>
  and \<^verbatim>\<open>2\<close>, and all tables that hold \<^verbatim>\<open>+\<close> as a modifier and a lexer state for
  the kinds met. When no symbol table holds the empty string, the tokenizer returns on
  every input.
\<close>

theorem ParseTokens_balance:
  "(ParseTokens_loop L T (newLexerStream x) (initialState T) fns [] = Some (Inr (Scanned ts))
      \<longrightarrow> ParseTokens L T x fns =
            Some (Inr (if clauseCount ts \<noteq> 0 then ([], Some UnbalancedParenthesis)
                       else (ts, None))))
   \<and> (ParseTokens L T x fns = Some (Inr (r, Some UnbalancedParenthesis)) \<longleftrightarrow>
        (\<exists>ts. ParseTokens_loop L T (newLexerStream x) (initialState T) fns []
                 = Some (Inr (Scanned ts))
              \<and> clauseCount ts \<noteq> 0 \<and> r = []))
   \<and> (asciiUnicode L \<and> ParseFloat L (runes ''1'') \<noteq> None \<and> ParseFloat L (runes ''2'') \<noteq> None
        \<and> runes ''+'' \<in> modifierSymbols T
        \<and> (\<forall>k \<in> {CLAUSE, NUMERIC, MODIFIER, PREFIX}. getLexerStateForToken T k \<noteq> None)
      \<longrightarrow> ParseTokens L T (runes ''(1 + 2'') fns = Some (Inr ([], Some UnbalancedParenthesis)))
   \<and> (noEmptySymbol T \<longrightarrow> (\<exists>res. ParseTokens L T x fns = Some res))"
proof (intro conjI impI)
  assume "ParseTokens_loop L T (newLexerStream x) (initialState T) fns [] = Some (Inr (Scanned ts))"
  then show "ParseTokens L T x fns =
      Some (Inr (if clauseCount ts \<noteq> 0 then ([], Some UnbalancedParenthesis) else (ts, None)))"
    by (simp add: ParseTokens_def checkBalance_clauseCount)
next
  show "ParseTokens L T x fns = Some (Inr (r, Some UnbalancedParenthesis)) \<longleftrightarrow>
        (\<exists>ts. ParseTokens_loop L T (newLexerStream x) (initialState T) fns []
                 = Some (Inr (Scanned ts))
              \<and> clauseCount ts \<noteq> 0 \<and> r = [])"
    using ParseTokens_loop_error[of L T "newLexerStream x" "initialState T" fns "[]"]
    by (auto simp: ParseTokens_def checkBalance_clauseCount
        split: option.splits sum.splits scan.splits if_splits)
next
  assume h: "asciiUnicode L \<and> ParseFloat L (runes ''1'') \<noteq> None \<and> ParseFloat L (runes ''2'') \<noteq> None
        \<and> runes ''+'' \<in> modifierSymbols T
        \<and> (\<forall>k \<in> {CLAUSE, NUMERIC, MODIFIER, PREFIX}. getLexerStateForToken T k \<noteq> None)"
  then obtain v1 v2 sc sn sm sp where
    v: "ParseFloat L (runes ''1'') = Some v1" "ParseFloat L (runes ''2'') = Some v2"
    and st: "getLexerStateForToken T CLAUSE = Some sc" "getLexerStateForToken T NUMERIC = Some sn"
      "getLexerStateForToken T MODIFIER = Some sm" "getLexerStateForToken T PREFIX = Some sp"
    by auto
  from h have L: "asciiUnicode L" and m: "runes ''+'' \<in> modifierSymbols T" by simp_all
  show "ParseTokens L T (runes ''(1 + 2'') fns = Some (Inr ([], Some UnbalancedParenthesis))"
    using v st m
    by (simp add: run_simps stream_simps class_simps token_simps asciiUnicodeD[OF L])
next
  assume "noEmptySymbol T"
  then show "\<exists>res. ParseTokens L T x fns = Some res" by (rule ParseTokens_returns)
qed

theorem ParseTokens_balance_witness:
  "asciiUnicode goAscii
   \<and> ParseFloat goAscii (runes ''1'') = Some 1 \<and> ParseFloat goAscii (runes ''2'') = Some 2
   \<and> runes ''+'' \<in> modifierSymbols exampleTables
   \<and> getLexerStateForToken exampleTables CLAUSE \<noteq> None
   \<and> getLexerStateForToken exampleTables NUMERIC \<noteq> None
   \<and> getLexerStateForToken exampleTables MODIFIER \<noteq> None
   \<and> getLexerStateForToken exampleTables PREFIX \<noteq> None
   \<and> noEmptySymbol exampleTables
   \<and> ParseTokens_loop goAscii exampleTables (newLexerStream (runes ''(1 + 2''))
         (initialState exampleTables) Map.empty []
       = Some (Inr (Scanned
           [\<lparr>Kind = CLAUSE, Value = VRune 40, Raw = runes ''('', Start = 0, End = 1\<rparr>,
            \<lparr>Kind = NUMERIC, Value = VFloat 1, Raw = runes ''1'', Start = 1, End = 3\<rparr>,
            \<lparr>Kind = MODIFIER, Value = VString (runes ''+''), Raw = runes ''+'', Start = 3, End = 5\<rparr>,
            \<lparr>Kind = NUMERIC, Value = VFloat 2, Raw = runes ''2'', Start = 5, End = 6\<rparr>]))
   \<and> clauseCount
         [\<lparr>Kind = CLAUSE, Value = VRune 40, Raw = runes ''('', Start = 0, End = 1\<rparr>,
          \<lparr>Kind = NUMERIC, Value = VFloat 1, Raw = runes ''1'', Start = 1, End = 3\<rparr>,
          \<lparr>Kind = MODIFIER, Value = VString (runes ''+''), Raw = runes ''+'', Start = 3, End = 5\<rparr>,
          \<lparr>Kind = NUMERIC, Value = VFloat 2, Raw = runes ''2'', Start = 5, End = 6\<rparr>] = 1
   \<and> ParseTokens goAscii exampleTables (runes ''(1 + 2'') Map.empty
       = Some (Inr ([], Some UnbalancedParenthesis))"
proof -
  have scan: "ParseTokens_loop goAscii exampleTables (newLexerStream (runes ''(1 + 2''))
         (initialState exampleTables) Map.empty []
       = Some (Inr (Scanned
           [\<lparr>Kind = CLAUSE, Value = VRune 40, Raw = runes ''('', Start = 0, End = 1\<rparr>,
            \<lparr>Kind = NUMERIC, Value = VFloat 1, Raw = runes ''1'', Start = 1, End = 3\<rparr>,
            \<lparr>Kind = MODIFIER, Value = VString (runes ''+''), Raw = runes ''+'', Start = 3, End = 5\<rparr>,
            \<lparr>Kind = NUMERIC, Value = VFloat 2, Raw = runes ''2'', Start = 5, End = 6\<rparr>]))"
    by (simp add: run_simps stream_simps class_simps token_simps goAscii_def exampleTables_def
        exampleState_def operandStart_def operandEnd_def canTransitionTo_def decimalLiteral_def)
  have lib: "asciiUnicode goAscii
      \<and> ParseFloat goAscii (runes ''1'') = Some 1 \<and> ParseFloat goAscii (runes ''2'') = Some 2
      \<and> runes ''+'' \<in> modifierSymbols exampleTables"
    by (simp add: asciiUnicode_goAscii)
       (simp add: goAscii_def exampleTables_def decimalLiteral_def class_simps)
  have states: "\<forall>k \<in> {CLAUSE, NUMERIC, MODIFIER, PREFIX}. getLexerStateForToken exampleTables k \<noteq> None"
    by (simp add: exampleTables_def)
  have tables: "noEmptySymbol exampleTables"
    by (simp add: noEmptySymbol_def exampleTables_def runes_def image_iff)
  show ?thesis
    using ParseTokens_balance[of goAscii exampleTables "runes ''(1 + 2''" Map.empty _ "[]"]
      scan lib states tables
    by (simp add: clauseCount_def)
qed

section \<open>The dispatch on the leading character\<close>

lemma readToken_loop_dispatch:
  assumes "readCharacter s = Inr (c, s1)" "\<not> IsSpace L c"
  shows "readToken_loop L T s st fns ret =
     readToken_dispatch L T s1 st fns (ret\<lparr>Start := position s\<rparr>) (position s) c"
proof -
  from assms(1) have "canRead s"
    by (auto simp: readCharacter_def canRead_def split: if_splits)
  with assms show ?thesis by (subst readToken_loop.simps) simp
qed

text \<open>
  Claim C1. A symbol run is what the tokenizer reads when the character is in none of
  the other classes. Its kind follows the priority: \<^verbatim>\<open>PREFIX\<close> when the lexer state
  permits a transition to \<^verbatim>\<open>PREFIX\<close> and the run is a prefix symbol; otherwise
  \<^verbatim>\<open>MODIFIER\<close>, \<^verbatim>\<open>LOGICALOP\<close>, \<^verbatim>\<open>COMPARATOR\<close>, \<^verbatim>\<open>TERNARY\<close> by the first
  table that holds the run, in this order; a run in none of them is the invalid-token
  error, which names the run. With \<^verbatim>\<open>-\<close> in the prefix and the modifier tables, a first
  state that permits \<^verbatim>\<open>PREFIX\<close> and a state after \<^verbatim>\<open>NUMERIC\<close> that does not, the
  \<^verbatim>\<open>-\<close> of \<^verbatim>\<open>-1\<close> is a \<^verbatim>\<open>PREFIX\<close> and the \<^verbatim>\<open>-\<close> of \<^verbatim>\<open>1 - 1\<close> is a
  \<^verbatim>\<open>MODIFIER\<close>.
\<close>

theorem symbol_run_priority:
  "(readCharacter s = Inr (c, s1) \<and> \<not> IsSpace L c \<and> \<not> isNumeric L c
      \<and> c \<noteq> rune CHR '','' \<and> c \<noteq> rune CHR ''['' \<and> \<not> IsLetter L c \<and> isNotQuote c
      \<and> c \<noteq> rune CHR ''('' \<and> c \<noteq> rune CHR '')''
      \<and> readTokenUntilFalse L s1 (isNotAlphanumeric L) = Inr (run, s2)
    \<longrightarrow> readToken_loop L T s st fns ret =
          (if canTransitionTo st PREFIX \<and> run \<in> prefixSymbols T then
             Inr ((\<lparr>Kind = PREFIX, Value = VString run, Raw = run, Start = position s,
                    End = position s2\<rparr>, None, True), s2)
           else if run \<in> modifierSymbols T then
             Inr ((\<lparr>Kind = MODIFIER, Value = VString run, Raw = run, Start = position s,
                    End = position s2\<rparr>, None, True), s2)
           else if run \<in> logicalSymbols T then
             Inr ((\<lparr>Kind = LOGICALOP, Value = VString run, Raw = run, Start = position s,
                    End = position s2\<rparr>, None, True), s2)
           else if run \<in> comparatorSymbols T then
             Inr ((\<lparr>Kind = COMPARATOR, Value = VString run, Raw = run, Start = position s,
                    End = position s2\<rparr>, None, True), s2)
           else if run \<in> ternarySymbols T then
             Inr ((\<lparr>Kind = TERNARY, Value = VString run, Raw = run, Start = position s,
                    End = position s2\<rparr>, None, True), s2)
           else Inr ((ret\<lparr>Start := position s\<rparr>, Some (InvalidToken run), False), s2)))
   \<and> (asciiUnicode L \<and> ParseFloat L (runes ''1'') = Some v
        \<and> runes ''-'' \<in> prefixSymbols T \<and> runes ''-'' \<in> modifierSymbols T
        \<and> canTransitionTo (initialState T) PREFIX
        \<and> getLexerStateForToken T PREFIX = Some sp
        \<and> getLexerStateForToken T NUMERIC = Some sn \<and> \<not> canTransitionTo sn PREFIX
        \<and> getLexerStateForToken T MODIFIER = Some sm
      \<longrightarrow> ParseTokens L T (runes ''-1'') fns =
            Some (Inr ([\<lparr>Kind = PREFIX, Value = VString (runes ''-''), Raw = runes ''-'',
                          Start = 0, End = 1\<rparr>,
                        \<lparr>Kind = NUMERIC, Value = VFloat v, Raw = runes ''1'',
                          Start = 1, End = 2\<rparr>], None))
          \<and> ParseTokens L T (runes ''1 - 1'') fns =
            Some (Inr ([\<lparr>Kind = NUMERIC, Value = VFloat v, Raw = runes ''1'',
                          Start = 0, End = 2\<rparr>,
                        \<lparr>Kind = MODIFIER, Value = VString (runes ''-''), Raw = runes ''-'',
                          Start = 2, End = 4\<rparr>,
                        \<lparr>Kind = NUMERIC, Value = VFloat v, Raw = runes ''1'',
                          Start = 4, End = 5\<rparr>], None)))"
proof (intro conjI impI)
  assume h: "readCharacter s = Inr (c, s1) \<and> \<not> IsSpace L c \<and> \<not> isNumeric L c
      \<and> c \<noteq> rune CHR '','' \<and> c \<noteq> rune CHR ''['' \<and> \<not> IsLetter L c \<and> isNotQuote c
      \<and> c \<noteq> rune CHR ''('' \<and> c \<noteq> rune CHR '')''
      \<and> readTokenUntilFalse L s1 (isNotAlphanumeric L) = Inr (run, s2)"
  then have "readToken_loop L T s st fns ret =
      readToken_symbol L T s1 st (ret\<lparr>Start := position s\<rparr>)"
    by (simp add: readToken_loop_dispatch readToken_dispatch_def)
  with h show "readToken_loop L T s st fns ret =
          (if canTransitionTo st PREFIX \<and> run \<in> prefixSymbols T then
             Inr ((\<lparr>Kind = PREFIX, Value = VString run, Raw = run, Start = position s,
                    End = position s2\<rparr>, None, True), s2)
           else if run \<in> modifierSymbols T then
             Inr ((\<lparr>Kind = MODIFIER, Value = VString run, Raw = run, Start = position s,
                    End = position s2\<rparr>, None, True), s2)
           else if run \<in> logicalSymbols T then
             Inr ((\<lparr>Kind = LOGICALOP, Value = VString run, Raw = run, Start = position s,
                    End = position s2\<rparr>, None, True), s2)
           else if run \<in> comparatorSymbols T then
             Inr ((\<lparr>Kind = COMPARATOR, Value = VString run, Raw = run, Start = position s,
                    End = position s2\<rparr>, None, True), s2)
           else if run \<in> ternarySymbols T then
             Inr ((\<lparr>Kind = TERNARY, Value = VString run, Raw = run, Start = position s,
                    End = position s2\<rparr>, None, True), s2)
           else Inr ((ret\<lparr>Start := position s\<rparr>, Some (InvalidToken run), False), s2))"
    by (simp add: readToken_symbol_def emitToken_def)
next
  assume h: "asciiUnicode L \<and> ParseFloat L (runes ''1'') = Some v
        \<and> runes ''-'' \<in> prefixSymbols T \<and> runes ''-'' \<in> modifierSymbols T
        \<and> canTransitionTo (initialState T) PREFIX
        \<and> getLexerStateForToken T PREFIX = Some sp
        \<and> getLexerStateForToken T NUMERIC = Some sn \<and> \<not> canTransitionTo sn PREFIX
        \<and> getLexerStateForToken T MODIFIER = Some sm"
  then have L: "asciiUnicode L" by simp
  from h show "ParseTokens L T (runes ''-1'') fns =
            Some (Inr ([\<lparr>Kind = PREFIX, Value = VString (runes ''-''), Raw = runes ''-'',
                          Start = 0, End = 1\<rparr>,
                        \<lparr>Kind = NUMERIC, Value = VFloat v, Raw = runes ''1'',
                          Start = 1, End = 2\<rparr>], None))"
    by (simp add: run_simps stream_simps class_simps token_simps asciiUnicodeD[OF L])
  from h show "ParseTokens L T (runes ''1 - 1'') fns =
            Some (Inr ([\<lparr>Kind = NUMERIC, Value = VFloat v, Raw = runes ''1'',
                          Start = 0, End = 2\<rparr>,
                        \<lparr>Kind = MODIFIER, Value = VString (runes ''-''), Raw = runes ''-'',
                          Start = 2, End = 4\<rparr>,
                        \<lparr>Kind = NUMERIC, Value = VFloat v, Raw = runes ''1'',
                          Start = 4, End = 5\<rparr>], None))"
    by (simp add: run_simps stream_simps class_simps token_simps asciiUnicodeD[OF L])
qed

theorem symbol_run_priority_witness:
  "readCharacter (newLexerStream (runes ''-1''))
     = Inr (rune CHR ''-'', \<lparr>source = runes ''-1'', position = 1\<rparr>)
   \<and> \<not> IsSpace goAscii (rune CHR ''-'') \<and> \<not> isNumeric goAscii (rune CHR ''-'')
   \<and> \<not> IsLetter goAscii (rune CHR ''-'') \<and> isNotQuote (rune CHR ''-'')
   \<and> readTokenUntilFalse goAscii \<lparr>source = runes ''-1'', position = 1\<rparr>
        (isNotAlphanumeric goAscii)
     = Inr (runes ''-'', \<lparr>source = runes ''-1'', position = 1\<rparr>)
   \<and> asciiUnicode goAscii \<and> ParseFloat goAscii (runes ''1'') = Some 1
   \<and> runes ''-'' \<in> prefixSymbols exampleTables \<and> runes ''-'' \<in> modifierSymbols exampleTables
   \<and> canTransitionTo (initialState exampleTables) PREFIX
   \<and> getLexerStateForToken exampleTables PREFIX = Some (exampleState PREFIX)
   \<and> getLexerStateForToken exampleTables NUMERIC = Some (exampleState NUMERIC)
   \<and> \<not> canTransitionTo (exampleState NUMERIC) PREFIX
   \<and> getLexerStateForToken exampleTables MODIFIER = Some (exampleState MODIFIER)
   \<and> readToken_loop goAscii exampleTables (newLexerStream (runes ''-1''))
        (initialState exampleTables) Map.empty zeroToken
     = Inr ((\<lparr>Kind = PREFIX, Value = VString (runes ''-''), Raw = runes ''-'', Start = 0,
              End = 1\<rparr>, None, True), \<lparr>source = runes ''-1'', position = 1\<rparr>)
   \<and> ParseTokens goAscii exampleTables (runes ''-1'') Map.empty =
       Some (Inr ([\<lparr>Kind = PREFIX, Value = VString (runes ''-''), Raw = runes ''-'',
                     Start = 0, End = 1\<rparr>,
                   \<lparr>Kind = NUMERIC, Value = VFloat 1, Raw = runes ''1'',
                     Start = 1, End = 2\<rparr>], None))
   \<and> ParseTokens goAscii exampleTables (runes ''1 - 1'') Map.empty =
       Some (Inr ([\<lparr>Kind = NUMERIC, Value = VFloat 1, Raw = runes ''1'',
                     Start = 0, End = 2\<rparr>,
                   \<lparr>Kind = MODIFIER, Value = VString (runes ''-''), Raw = runes ''-'',
                     Start = 2, End = 4\<rparr>,
                   \<lparr>Kind = NUMERIC, Value = VFloat 1, Raw = runes ''1'',
                     Start = 4, End = 5\<rparr>], None))"
proof -
  have hyps: "readCharacter (newLexerStream (runes ''-1''))
       = Inr (rune CHR ''-'', \<lparr>source = runes ''-1'', position = 1\<rparr>)
     \<and> \<not> IsSpace goAscii (rune CHR ''-'') \<and> \<not> isNumeric goAscii (rune CHR ''-'')
     \<and> rune CHR ''-'' \<noteq> rune CHR '','' \<and> rune CHR ''-'' \<noteq> rune CHR ''[''
     \<and> \<not> IsLetter goAscii (rune CHR ''-'') \<and> isNotQuote (rune CHR ''-'')
     \<and> rune CHR ''-'' \<noteq> rune CHR ''('' \<and> rune CHR ''-'' \<noteq> rune CHR '')''
     \<and> readTokenUntilFalse goAscii \<lparr>source = runes ''-1'', position = 1\<rparr>
          (isNotAlphanumeric goAscii)
       = Inr (runes ''-'', \<lparr>source = runes ''-1'', position = 1\<rparr>)"
    by (simp add: readUntilFalse.simps stream_simps class_simps readTokenUntilFalse_def
        goAscii_def)
  have lib: "asciiUnicode goAscii \<and> ParseFloat goAscii (runes ''1'') = Some 1
     \<and> runes ''-'' \<in> prefixSymbols exampleTables \<and> runes ''-'' \<in> modifierSymbols exampleTables
     \<and> canTransitionTo (initialState exampleTables) PREFIX
     \<and> getLexerStateForToken exampleTables PREFIX = Some (exampleState PREFIX)
     \<and> getLexerStateForToken exampleTables NUMERIC = Some (exampleState NUMERIC)
     \<and> \<not> canTransitionTo (exampleState NUMERIC) PREFIX
     \<and> getLexerStateForToken exampleTables MODIFIER = Some (exampleState MODIFIER)"
    by (simp add: asciiUnicode_goAscii)
       (simp add: goAscii_def exampleTables_def exampleState_def operandStart_def
         operandEnd_def canTransitionTo_def decimalLiteral_def class_simps)
  show ?thesis
    using symbol_run_priority[where s = "newLexerStream (runes ''-1'')"
        and c = "rune CHR ''-''"
        and ?s1.0 = "\<lparr>source = runes ''-1'', position = 1\<rparr>" and L = goAscii
        and run = "runes ''-''" and ?s2.0 = "\<lparr>source = runes ''-1'', position = 1\<rparr>"
        and T = exampleTables and st = "initialState exampleTables" and fns = Map.empty
        and ret = zeroToken and v = 1 and sp = "exampleState PREFIX"
        and sn = "exampleState NUMERIC" and sm = "exampleState MODIFIER"] hyps lib
    by (simp add: newLexerStream_def)
qed

text \<open>
  Claim C10. The numeric branch is taken on a leading period as on a leading digit:
  when the character read is a period, the run of digits and periods from it goes to
  \<^verbatim>\<open>ParseFloat\<close>, and the token is \<^verbatim>\<open>NUMERIC\<close> with the float parsed, or the call
  fails with the numeric parse error that names the run. So \<^verbatim>\<open>.5\<close> is one
  \<^verbatim>\<open>NUMERIC\<close> token of value \<open>0.5\<close>, and \<^verbatim>\<open>.\<close> fails with that error.
\<close>

theorem leading_period_is_numeric:
  "(readCharacter s = Inr (rune CHR ''.'', s1) \<and> \<not> IsSpace L (rune CHR ''.'')
      \<and> readTokenUntilFalse L s1 (isNumeric L) = Inr (run, s2)
    \<longrightarrow> readToken_loop L T s st fns ret =
          (case ParseFloat L run of
             None \<Rightarrow>
               Inr ((\<lparr>Kind = UNKNOWN, Value = VNil, Raw = [], Start = position s,
                      End = position s2\<rparr>, Some (NumericParseError run), False), s2)
           | Some v \<Rightarrow>
               Inr ((\<lparr>Kind = NUMERIC, Value = VFloat v, Raw = run, Start = position s,
                      End = position s2\<rparr>, None, True), s2)))
   \<and> (asciiUnicode L \<and> ParseFloat L (runes ''.5'') = Some (1 / 2)
        \<and> ParseFloat L (runes ''.'') = None \<and> getLexerStateForToken T NUMERIC = Some sn
      \<longrightarrow> ParseTokens L T (runes ''.5'') fns =
            Some (Inr ([\<lparr>Kind = NUMERIC, Value = VFloat (1 / 2), Raw = runes ''.5'',
                          Start = 0, End = 2\<rparr>], None))
          \<and> ParseTokens L T (runes ''.'') fns =
            Some (Inr ([], Some (NumericParseError (runes ''.'')))))"
proof (intro conjI impI)
  assume h: "readCharacter s = Inr (rune CHR ''.'', s1) \<and> \<not> IsSpace L (rune CHR ''.'')
      \<and> readTokenUntilFalse L s1 (isNumeric L) = Inr (run, s2)"
  then have "readToken_loop L T s st fns ret =
      readToken_float L s1 (position s) (ret\<lparr>Start := position s\<rparr>)"
    by (simp add: readToken_loop_dispatch readToken_dispatch_def readToken_numeric_def
        isNumeric_def rune_def)
  with h show "readToken_loop L T s st fns ret =
          (case ParseFloat L run of
             None \<Rightarrow>
               Inr ((\<lparr>Kind = UNKNOWN, Value = VNil, Raw = [], Start = position s,
                      End = position s2\<rparr>, Some (NumericParseError run), False), s2)
           | Some v \<Rightarrow>
               Inr ((\<lparr>Kind = NUMERIC, Value = VFloat v, Raw = run, Start = position s,
                      End = position s2\<rparr>, None, True), s2))"
    by (simp add: readToken_float_def emitToken_def failToken_def zeroToken_def
        split: option.splits)
next
  assume h: "asciiUnicode L \<and> ParseFloat L (runes ''.5'') = Some (1 / 2)
        \<and> ParseFloat L (runes ''.'') = None \<and> getLexerStateForToken T NUMERIC = Some sn"
  then have L: "asciiUnicode L" by simp
  from h show "ParseTokens L T (runes ''.5'') fns =
            Some (Inr ([\<lparr>Kind = NUMERIC, Value = VFloat (1 / 2), Raw = runes ''.5'',
                          Start = 0, End = 2\<rparr>], None))"
    by (simp add: run_simps stream_simps class_simps token_simps asciiUnicodeD[OF L])
  from h show "ParseTokens L T (runes ''.'') fns =
            Some (Inr ([], Some (NumericParseError (runes ''.''))))"
    by (simp add: run_simps stream_simps class_simps token_simps asciiUnicodeD[OF L])
qed

theorem leading_period_is_numeric_witness:
  "readCharacter (newLexerStream (runes ''.5''))
     = Inr (rune CHR ''.'', \<lparr>source = runes ''.5'', position = 1\<rparr>)
   \<and> \<not> IsSpace goAscii (rune CHR ''.'')
   \<and> readTokenUntilFalse goAscii \<lparr>source = runes ''.5'', position = 1\<rparr> (isNumeric goAscii)
     = Inr (runes ''.5'', \<lparr>source = runes ''.5'', position = 2\<rparr>)
   \<and> asciiUnicode goAscii
   \<and> ParseFloat goAscii (runes ''.5'') = Some (1 / 2) \<and> ParseFloat goAscii (runes ''.'') = None
   \<and> getLexerStateForToken exampleTables NUMERIC = Some (exampleState NUMERIC)
   \<and> readToken_loop goAscii exampleTables (newLexerStream (runes ''.5''))
        (initialState exampleTables) Map.empty zeroToken
     = Inr ((\<lparr>Kind = NUMERIC, Value = VFloat (1 / 2), Raw = runes ''.5'', Start = 0, End = 2\<rparr>,
             None, True), \<lparr>source = runes ''.5'', position = 2\<rparr>)
   \<and> ParseTokens goAscii exampleTables (runes ''.5'') Map.empty =
       Some (Inr ([\<lparr>Kind = NUMERIC, Value = VFloat (1 / 2), Raw = runes ''.5'',
                     Start = 0, End = 2\<rparr>], None))
   \<and> ParseTokens goAscii exampleTables (runes ''.'') Map.empty =
       Some (Inr ([], Some (NumericParseError (runes ''.''))))"
proof -
  have hyps: "readCharacter (newLexerStream (runes ''.5''))
       = Inr (rune CHR ''.'', \<lparr>source = runes ''.5'', position = 1\<rparr>)
     \<and> \<not> IsSpace goAscii (rune CHR ''.'')
     \<and> readTokenUntilFalse goAscii \<lparr>source = runes ''.5'', position = 1\<rparr> (isNumeric goAscii)
       = Inr (runes ''.5'', \<lparr>source = runes ''.5'', position = 2\<rparr>)"
    by (simp add: readUntilFalse.simps stream_simps class_simps readTokenUntilFalse_def
        goAscii_def)
  have lib: "asciiUnicode goAscii
     \<and> ParseFloat goAscii (runes ''.5'') = Some (1 / 2) \<and> ParseFloat goAscii (runes ''.'') = None
     \<and> getLexerStateForToken exampleTables NUMERIC = Some (exampleState NUMERIC)"
    by (simp add: asciiUnicode_goAscii)
       (simp add: goAscii_def exampleTables_def decimalLiteral_def class_simps)
  show ?thesis
    using leading_period_is_numeric[where s = "newLexerStream (runes ''.5'')"
        and ?s1.0 = "\<lparr>source = runes ''.5'', position = 1\<rparr>" and L = goAscii
        and run = "runes ''.5''" and ?s2.0 = "\<lparr>source = runes ''.5'', position = 2\<rparr>"
        and T = exampleTables and st = "initialState exampleTables" and fns = Map.empty
        and ret = zeroToken and sn = "exampleState NUMERIC"] hyps lib
    by (simp add: newLexerStream_def)
qed

section \<open>Hexadecimal literals\<close>

text \<open>
  On \<^verbatim>\<open>0x\<close> at the end of the input the test \<^verbatim>\<open>stream.canRead()\<close> after the
  \<^verbatim>\<open>x\<close> fails: no hexadecimal digits are scanned and nothing fails; the tokenizer
  returns the number \<open>0\<close> and the variable \<^verbatim>\<open>x\<close>.
\<close>

theorem hex_at_end_of_input:
  "ParseTokens goAscii exampleTables (runes ''0x'') Map.empty =
     Some (Inr ([\<lparr>Kind = NUMERIC, Value = VFloat 0, Raw = runes ''0'', Start = 0, End = 1\<rparr>,
                 \<lparr>Kind = VARIABLE, Value = VString (runes ''x''), Raw = runes ''x'',
                   Start = 1, End = 2\<rparr>], None))"
  by (simp add: run_simps stream_simps class_simps token_simps goAscii_def exampleTables_def
      exampleState_def decimalLiteral_def wordKind_def)

text \<open>
  Claim C6, as the code has it. A numeric token that begins with \<^verbatim>\<open>0\<close>, then
  \<^verbatim>\<open>x\<close>, then at least one more character: the tokenizer scans hexadecimal digits
  after the \<^verbatim>\<open>x\<close>, parses them as an unsigned 64-bit integer and stores it as a
  float in a \<^verbatim>\<open>NUMERIC\<close> token, or fails with the error that names the digits scanned
  when they do not parse. The integer parsed is below \<open>2^64\<close>, and below \<open>2^53\<close>
  the float is the integer itself. \<^verbatim>\<open>0xFF\<close> is one \<^verbatim>\<open>NUMERIC\<close> token of value
  \<open>255\<close>.
\<close>

theorem hex_literal:
  "(readCharacter s = Inr (rune CHR ''0'', s1) \<and> \<not> IsSpace L (rune CHR ''0'')
      \<and> IsDigit L (rune CHR ''0'')
      \<and> readCharacter s1 = Inr (rune CHR ''x'', s2) \<and> canRead s2
      \<and> readUntilFalse L s2 False True True (isHexDigit L) [] = Inr ((hex, conditioned), s3)
    \<longrightarrow> readToken_loop L T s st fns ret =
          (case ParseUint16 hex of
             None \<Rightarrow>
               Inr ((\<lparr>Kind = UNKNOWN, Value = VNil, Raw = [], Start = position s,
                      End = position s3\<rparr>, Some (HexParseError hex), False), s3)
           | Some n \<Rightarrow>
               Inr ((\<lparr>Kind = NUMERIC, Value = VFloat (float64_of_uint64 n), Raw = hex,
                      Start = position s, End = position s3\<rparr>, None, True), s3)))
   \<and> (ParseUint16 hex = Some n \<longrightarrow> n < 2 ^ 64)
   \<and> (n < 2 ^ 53 \<longrightarrow> float64_of_uint64 n = real n)
   \<and> (asciiUnicode L \<and> getLexerStateForToken T NUMERIC = Some sn
      \<longrightarrow> ParseTokens L T (runes ''0xFF'') fns =
            Some (Inr ([\<lparr>Kind = NUMERIC, Value = VFloat 255, Raw = runes ''FF'',
                          Start = 0, End = 4\<rparr>], None)))"
proof (intro conjI impI)
  assume h: "readCharacter s = Inr (rune CHR ''0'', s1) \<and> \<not> IsSpace L (rune CHR ''0'')
      \<and> IsDigit L (rune CHR ''0'')
      \<and> readCharacter s1 = Inr (rune CHR ''x'', s2) \<and> canRead s2
      \<and> readUntilFalse L s2 False True True (isHexDigit L) [] = Inr ((hex, conditioned), s3)"
  then have "canRead s1"
    by (auto simp: readCharacter_def canRead_def split: if_splits)
  with h have "readToken_loop L T s st fns ret =
      readToken_hex L s2 (position s) (ret\<lparr>Start := position s\<rparr>)"
    by (simp add: readToken_loop_dispatch readToken_dispatch_def readToken_numeric_def
        isNumeric_def)
  with h show "readToken_loop L T s st fns ret =
          (case ParseUint16 hex of
             None \<Rightarrow>
               Inr ((\<lparr>Kind = UNKNOWN, Value = VNil, Raw = [], Start = position s,
                      End = position s3\<rparr>, Some (HexParseError hex), False), s3)
           | Some n \<Rightarrow>
               Inr ((\<lparr>Kind = NUMERIC, Value = VFloat (float64_of_uint64 n), Raw = hex,
                      Start = position s, End = position s3\<rparr>, None, True), s3))"
    by (simp add: readToken_hex_def emitToken_def failToken_def zeroToken_def
        split: option.splits)
next
  assume "ParseUint16 hex = Some n"
  then show "n < 2 ^ 64"
    by (auto simp: ParseUint16_def split: if_splits option.splits)
next
  assume "n < 2 ^ 53"
  then show "float64_of_uint64 n = real n" by (simp add: float64_of_uint64_def)
next
  assume h: "asciiUnicode L \<and> getLexerStateForToken T NUMERIC = Some sn"
  then have L: "asciiUnicode L" by simp
  from h show "ParseTokens L T (runes ''0xFF'') fns =
            Some (Inr ([\<lparr>Kind = NUMERIC, Value = VFloat 255, Raw = runes ''FF'',
                          Start = 0, End = 4\<rparr>], None))"
    by (simp add: run_simps stream_simps class_simps token_simps asciiUnicodeD[OF L]
        ParseUint16_def hexDigitValue_def float64_of_uint64_def)
qed

theorem hex_literal_witness:
  "readCharacter (newLexerStream (runes ''0xFF''))
     = Inr (rune CHR ''0'', \<lparr>source = runes ''0xFF'', position = 1\<rparr>)
   \<and> \<not> IsSpace goAscii (rune CHR ''0'') \<and> IsDigit goAscii (rune CHR ''0'')
   \<and> readCharacter \<lparr>source = runes ''0xFF'', position = 1\<rparr>
     = Inr (rune CHR ''x'', \<lparr>source = runes ''0xFF'', position = 2\<rparr>)
   \<and> canRead \<lparr>source = runes ''0xFF'', position = 2\<rparr>
   \<and> readUntilFalse goAscii \<lparr>source = runes ''0xFF'', position = 2\<rparr> False True True
        (isHexDigit goAscii) []
     = Inr ((runes ''FF'', False), \<lparr>source = runes ''0xFF'', position = 4\<rparr>)
   \<and> ParseUint16 (runes ''FF'') = Some 255 \<and> (255 :: nat) < 2 ^ 53
   \<and> asciiUnicode goAscii
   \<and> getLexerStateForToken exampleTables NUMERIC = Some (exampleState NUMERIC)
   \<and> readToken_loop goAscii exampleTables (newLexerStream (runes ''0xFF''))
        (initialState exampleTables) Map.empty zeroToken
     = Inr ((\<lparr>Kind = NUMERIC, Value = VFloat 255, Raw = runes ''FF'', Start = 0, End = 4\<rparr>,
             None, True), \<lparr>source = runes ''0xFF'', position = 4\<rparr>)
   \<and> ParseTokens goAscii exampleTables (runes ''0xFF'') Map.empty =
       Some (Inr ([\<lparr>Kind = NUMERIC, Value = VFloat 255, Raw = runes ''FF'',
                     Start = 0, End = 4\<rparr>], None))"
proof -
  have hyps: "readCharacter (newLexerStream (runes ''0xFF''))
       = Inr (rune CHR ''0'', \<lparr>source = runes ''0xFF'', position = 1\<rparr>)
     \<and> \<not> IsSpace goAscii (rune CHR ''0'') \<and> IsDigit goAscii (rune CHR ''0'')
     \<and> readCharacter \<lparr>source = runes ''0xFF'', position = 1\<rparr>
       = Inr (rune CHR ''x'', \<lparr>source = runes ''0xFF'', position = 2\<rparr>)
     \<and> canRead \<lparr>source = runes ''0xFF'', position = 2\<rparr>
     \<and> readUntilFalse goAscii \<lparr>source = runes ''0xFF'', position = 2\<rparr> False True True
          (isHexDigit goAscii) []
       = Inr ((runes ''FF'', False), \<lparr>source = runes ''0xFF'', position = 4\<rparr>)"
    by (simp add: readUntilFalse.simps stream_simps class_simps goAscii_def)
  have lib: "ParseUint16 (runes ''FF'') = Some 255 \<and> (255 :: nat) < 2 ^ 53
     \<and> asciiUnicode goAscii
     \<and> getLexerStateForToken exampleTables NUMERIC = Some (exampleState NUMERIC)"
    by (simp add: asciiUnicode_goAscii)
       (simp add: exampleTables_def ParseUint16_def hexDigitValue_def class_simps)
  show ?thesis
    using hex_literal[where s = "newLexerStream (runes ''0xFF'')"
        and ?s1.0 = "\<lparr>source = runes ''0xFF'', position = 1\<rparr>" and L = goAscii
        and ?s2.0 = "\<lparr>source = runes ''0xFF'', position = 2\<rparr>"
        and hex = "runes ''FF''" and conditioned = False
        and ?s3.0 = "\<lparr>source = runes ''0xFF'', position = 4\<rparr>"
        and T = exampleTables and st = "initialState exampleTables" and fns = Map.empty
        and ret = zeroToken and n = 255 and sn = "exampleState NUMERIC"] hyps lib
    by (simp add: newLexerStream_def)
qed

section \<open>Letter-led runs\<close>

lemma strings_Index_neg: "strings_Index r sep < 0 \<longleftrightarrow> sep \<notin> set r"
  by (induction r) auto

lemma strings_Index_nonneg: "- 1 \<le> strings_Index r sep"
  by (induction r) auto

lemma strings_Index_pos: "0 < strings_Index r sep \<longleftrightarrow> sep \<in> set r \<and> hd r \<noteq> sep"
proof (cases r)
  case Nil
  then show ?thesis by simp
next
  case (Cons c cs)
  then show ?thesis
    using strings_Index_neg[of cs sep] strings_Index_nonneg[of cs sep] by auto
qed

lemma strings_Split_nonempty: "strings_Split r sep \<noteq> []"
  by (induction r) (auto split: list.splits)

lemma strings_Split_segments: "seg \<in> set (strings_Split r sep) \<Longrightarrow> sep \<notin> set seg"
  by (induction r arbitrary: seg) (auto split: list.splits if_splits)

lemma strings_Split_join:
  "concat (map (\<lambda>seg. sep # seg) (strings_Split r sep)) = sep # r"
  by (induction r) (auto split: list.splits simp: strings_Split_nonempty)

lemma unexportedField_find:
  "unexportedField L segs = find (\<lambda>seg. ToUpper L (getFirstRune seg) \<noteq> getFirstRune seg) segs"
  by (induction segs) auto

lemma wordKind_function:
  "fns run = Some f \<Longrightarrow> wordKind run fns = (FUNCTION, VFunction f)"
  by (simp add: wordKind_def Let_def)

lemma wordKind_in:
  "fns run = None \<Longrightarrow> run = runes ''in'' \<or> run = runes ''IN''
     \<Longrightarrow> wordKind run fns = (COMPARATOR, VString (runes ''in''))"
  by (auto simp: wordKind_def Let_def runes_def rune_def)

lemma readToken_loop_letter:
  assumes "readCharacter s = Inr (c, s1)" "\<not> IsSpace L c" "\<not> isNumeric L c"
    "c \<noteq> rune CHR '',''" "c \<noteq> rune CHR ''[''" "IsLetter L c"
  shows "readToken_loop L T s st fns ret =
     readToken_letter L s1 (position s) (ret\<lparr>Start := position s\<rparr>) fns"
  using assms by (simp add: readToken_loop_dispatch readToken_dispatch_def)

text \<open>
  The test for the textual operator compares with \<^verbatim>\<open>in\<close> and \<^verbatim>\<open>IN\<close> only:
  \<^verbatim>\<open>In\<close> is a variable. The function lookup comes after it: a function registered
  as \<^verbatim>\<open>in\<close> makes the run a \<^verbatim>\<open>FUNCTION\<close> token.
\<close>

theorem mixed_case_in_is_variable:
  "ParseTokens goAscii exampleTables (runes ''In'') Map.empty =
     Some (Inr ([\<lparr>Kind = VARIABLE, Value = VString (runes ''In''), Raw = runes ''In'',
                   Start = 0, End = 2\<rparr>], None))
   \<and> ParseTokens goAscii exampleTables (runes ''in'') [runes ''in'' \<mapsto> exampleFunction] =
     Some (Inr ([\<lparr>Kind = FUNCTION, Value = VFunction exampleFunction, Raw = runes ''in'',
                   Start = 0, End = 2\<rparr>], None))"
  by (simp add: run_simps stream_simps class_simps token_simps goAscii_def exampleTables_def
      exampleState_def wordKind_def)

text \<open>
  Claim C2, as the code has it. A letter-led run that is \<^verbatim>\<open>in\<close> or \<^verbatim>\<open>IN\<close> and is
  not a key of the function mapping is a \<^verbatim>\<open>COMPARATOR\<close> token whose value is the
  lower-case string \<^verbatim>\<open>in\<close>.
\<close>

theorem textual_in_comparator:
  "(readCharacter s = Inr (c, s1) \<and> \<not> IsSpace L c \<and> \<not> isNumeric L c
      \<and> c \<noteq> rune CHR '','' \<and> c \<noteq> rune CHR ''['' \<and> IsLetter L c
      \<and> readTokenUntilFalse L s1 (isVariableName L) = Inr (run, s2)
      \<and> (run = runes ''in'' \<or> run = runes ''IN'') \<and> fns run = None
    \<longrightarrow> readToken_loop L T s st fns ret =
          Inr ((\<lparr>Kind = COMPARATOR, Value = VString (runes ''in''), Raw = run,
                 Start = position s, End = position s2\<rparr>, None, True), s2))
   \<and> (asciiUnicode L \<and> getLexerStateForToken T COMPARATOR = Some sc
        \<and> fns (runes ''in'') = None \<and> fns (runes ''IN'') = None
      \<longrightarrow> ParseTokens L T (runes ''in'') fns =
            Some (Inr ([\<lparr>Kind = COMPARATOR, Value = VString (runes ''in''), Raw = runes ''in'',
                          Start = 0, End = 2\<rparr>], None))
          \<and> ParseTokens L T (runes ''IN'') fns =
            Some (Inr ([\<lparr>Kind = COMPARATOR, Value = VString (runes ''in''), Raw = runes ''IN'',
                          Start = 0, End = 2\<rparr>], None)))"
proof (intro conjI impI)
  assume h: "readCharacter s = Inr (c, s1) \<and> \<not> IsSpace L c \<and> \<not> isNumeric L c
      \<and> c \<noteq> rune CHR '','' \<and> c \<noteq> rune CHR ''['' \<and> IsLetter L c
      \<and> readTokenUntilFalse L s1 (isVariableName L) = Inr (run, s2)
      \<and> (run = runes ''in'' \<or> run = runes ''IN'') \<and> fns run = None"
  then have loop: "readToken_loop L T s st fns ret =
      readToken_letter L s1 (position s) (ret\<lparr>Start := position s\<rparr>) fns"
    by (simp add: readToken_loop_letter)
  from h have wk: "wordKind run fns = (COMPARATOR, VString (runes ''in''))"
    by (simp add: wordKind_in)
  from h have nodot: "\<not> 0 < strings_Index run (rune CHR ''.'')"
    by (auto simp: runes_def rune_def)
  from h loop wk nodot show "readToken_loop L T s st fns ret =
          Inr ((\<lparr>Kind = COMPARATOR, Value = VString (runes ''in''), Raw = run,
                 Start = position s, End = position s2\<rparr>, None, True), s2)"
    by (simp add: readToken_letter_def emitToken_def)
next
  assume h: "asciiUnicode L \<and> getLexerStateForToken T COMPARATOR = Some sc
        \<and> fns (runes ''in'') = None \<and> fns (runes ''IN'') = None"
  then have L: "asciiUnicode L" by simp
  from h show "ParseTokens L T (runes ''in'') fns =
            Some (Inr ([\<lparr>Kind = COMPARATOR, Value = VString (runes ''in''), Raw = runes ''in'',
                          Start = 0, End = 2\<rparr>], None))"
    by (simp add: run_simps stream_simps class_simps token_simps asciiUnicodeD[OF L]
        wordKind_def)
  from h show "ParseTokens L T (runes ''IN'') fns =
            Some (Inr ([\<lparr>Kind = COMPARATOR, Value = VString (runes ''in''), Raw = runes ''IN'',
                          Start = 0, End = 2\<rparr>], None))"
    by (simp add: run_simps stream_simps class_simps token_simps asciiUnicodeD[OF L]
        wordKind_def)
qed

theorem textual_in_comparator_witness:
  "readCharacter (newLexerStream (runes ''IN''))
     = Inr (rune CHR ''I'', \<lparr>source = runes ''IN'', position = 1\<rparr>)
   \<and> \<not> IsSpace goAscii (rune CHR ''I'') \<and> \<not> isNumeric goAscii (rune CHR ''I'')
   \<and> IsLetter goAscii (rune CHR ''I'')
   \<and> readTokenUntilFalse goAscii \<lparr>source = runes ''IN'', position = 1\<rparr>
        (isVariableName goAscii)
     = Inr (runes ''IN'', \<lparr>source = runes ''IN'', position = 2\<rparr>)
   \<and> asciiUnicode goAscii
   \<and> getLexerStateForToken exampleTables COMPARATOR = Some (exampleState COMPARATOR)
   \<and> readToken_loop goAscii exampleTables (newLexerStream (runes ''IN''))
        (initialState exampleTables) Map.empty zeroToken
     = Inr ((\<lparr>Kind = COMPARATOR, Value = VString (runes ''in''), Raw = runes ''IN'',
              Start = 0, End = 2\<rparr>, None, True), \<lparr>source = runes ''IN'', position = 2\<rparr>)
   \<and> ParseTokens goAscii exampleTables (runes ''in'') Map.empty =
       Some (Inr ([\<lparr>Kind = COMPARATOR, Value = VString (runes ''in''), Raw = runes ''in'',
                     Start = 0, End = 2\<rparr>], None))
   \<and> ParseTokens goAscii exampleTables (runes ''IN'') Map.empty =
       Some (Inr ([\<lparr>Kind = COMPARATOR, Value = VString (runes ''in''), Raw = runes ''IN'',
                     Start = 0, End = 2\<rparr>], None))"
proof -
  have hyps: "readCharacter (newLexerStream (runes ''IN''))
       = Inr (rune CHR ''I'', \<lparr>source = runes ''IN'', position = 1\<rparr>)
     \<and> \<not> IsSpace goAscii (rune CHR ''I'') \<and> \<not> isNumeric goAscii (rune CHR ''I'')
     \<and> rune CHR ''I'' \<noteq> rune CHR '','' \<and> rune CHR ''I'' \<noteq> rune CHR ''[''
     \<and> IsLetter goAscii (rune CHR ''I'')
     \<and> readTokenUntilFalse goAscii \<lparr>source = runes ''IN'', position = 1\<rparr>
          (isVariableName goAscii)
       = Inr (runes ''IN'', \<lparr>source = runes ''IN'', position = 2\<rparr>)"
    by (simp add: readUntilFalse.simps stream_simps class_simps readTokenUntilFalse_def
        goAscii_def)
  have lib: "asciiUnicode goAscii
     \<and> getLexerStateForToken exampleTables COMPARATOR = Some (exampleState COMPARATOR)"
    by (simp add: asciiUnicode_goAscii exampleTables_def)
  show ?thesis
    using textual_in_comparator[where s = "newLexerStream (runes ''IN'')"
        and c = "rune CHR ''I''"
        and ?s1.0 = "\<lparr>source = runes ''IN'', position = 1\<rparr>" and L = goAscii
        and run = "runes ''IN''" and ?s2.0 = "\<lparr>source = runes ''IN'', position = 2\<rparr>"
        and T = exampleTables and st = "initialState exampleTables" and fns = Map.empty
        and ret = zeroToken and sc = "exampleState COMPARATOR"] hyps lib
    by (simp add: newLexerStream_def)
qed

text \<open>
  The accessor test comes after the function lookup and overwrites its result: a
  registered name with a period in it is an \<^verbatim>\<open>ACCESSOR\<close> token.
\<close>

theorem registered_dotted_name_is_accessor:
  "ParseTokens goAscii exampleTables (runes ''foo.Bar'') [runes ''foo.Bar'' \<mapsto> exampleFunction] =
     Some (Inr ([\<lparr>Kind = ACCESSOR, Value = VStrings [runes ''foo'', runes ''Bar''],
                   Raw = runes ''foo.Bar'', Start = 0, End = 7\<rparr>], None))"
  by (simp add: run_simps stream_simps class_simps token_simps goAscii_def exampleTables_def
      exampleState_def wordKind_def getFirstRune_def)

text \<open>
  Claim C3, as the code has it. A letter-led run that is a key of the function mapping
  and has no period in it is a \<^verbatim>\<open>FUNCTION\<close> token whose value is the function
  descriptor.
\<close>

theorem function_name_token:
  "(readCharacter s = Inr (c, s1) \<and> \<not> IsSpace L c \<and> \<not> isNumeric L c
      \<and> c \<noteq> rune CHR '','' \<and> c \<noteq> rune CHR ''['' \<and> IsLetter L c
      \<and> readTokenUntilFalse L s1 (isVariableName L) = Inr (run, s2)
      \<and> fns run = Some f \<and> rune CHR ''.'' \<notin> set run
    \<longrightarrow> readToken_loop L T s st fns ret =
          Inr ((\<lparr>Kind = FUNCTION, Value = VFunction f, Raw = run,
                 Start = position s, End = position s2\<rparr>, None, True), s2))
   \<and> (asciiUnicode L \<and> getLexerStateForToken T FUNCTION = Some sf
        \<and> fns (runes ''foo'') = Some f
      \<longrightarrow> ParseTokens L T (runes ''foo'') fns =
            Some (Inr ([\<lparr>Kind = FUNCTION, Value = VFunction f, Raw = runes ''foo'',
                          Start = 0, End = 3\<rparr>], None)))"
proof (intro conjI impI)
  assume h: "readCharacter s = Inr (c, s1) \<and> \<not> IsSpace L c \<and> \<not> isNumeric L c
      \<and> c \<noteq> rune CHR '','' \<and> c \<noteq> rune CHR ''['' \<and> IsLetter L c
      \<and> readTokenUntilFalse L s1 (isVariableName L) = Inr (run, s2)
      \<and> fns run = Some f \<and> rune CHR ''.'' \<notin> set run"
  then have loop: "readToken_loop L T s st fns ret =
      readToken_letter L s1 (position s) (ret\<lparr>Start := position s\<rparr>) fns"
    by (simp add: readToken_loop_letter)
  from h have wk: "wordKind run fns = (FUNCTION, VFunction f)"
    by (simp add: wordKind_function)
  from h have nodot: "\<not> 0 < strings_Index run (rune CHR ''.'')"
    by (simp add: strings_Index_pos)
  from h loop wk nodot show "readToken_loop L T s st fns ret =
          Inr ((\<lparr>Kind = FUNCTION, Value = VFunction f, Raw = run,
                 Start = position s, End = position s2\<rparr>, None, True), s2)"
    by (simp add: readToken_letter_def emitToken_def)
next
  assume h: "asciiUnicode L \<and> getLexerStateForToken T FUNCTION = Some sf
        \<and> fns (runes ''foo'') = Some f"
  then have L: "asciiUnicode L" by simp
  from h show "ParseTokens L T (runes ''foo'') fns =
            Some (Inr ([\<lparr>Kind = FUNCTION, Value = VFunction f, Raw = runes ''foo'',
                          Start = 0, End = 3\<rparr>], None))"
    by (simp add: run_simps stream_simps class_simps token_simps asciiUnicodeD[OF L]
        wordKind_def)
qed

theorem function_name_token_witness:
  "readCharacter (newLexerStream (runes ''foo''))
     = Inr (rune CHR ''f'', \<lparr>source = runes ''foo'', position = 1\<rparr>)
   \<and> \<not> IsSpace goAscii (rune CHR ''f'') \<and> \<not> isNumeric goAscii (rune CHR ''f'')
   \<and> IsLetter goAscii (rune CHR ''f'')
   \<and> readTokenUntilFalse goAscii \<lparr>source = runes ''foo'', position = 1\<rparr>
        (isVariableName goAscii)
     = Inr (runes ''foo'', \<lparr>source = runes ''foo'', position = 3\<rparr>)
   \<and> [runes ''foo'' \<mapsto> exampleFunction] (runes ''foo'') = Some exampleFunction
   \<and> rune CHR ''.'' \<notin> set (runes ''foo'')
   \<and> asciiUnicode goAscii
   \<and> getLexerStateForToken exampleTables FUNCTION = Some (exampleState FUNCTION)
   \<and> readToken_loop goAscii exampleTables (newLexerStream (runes ''foo''))
        (initialState exampleTables) [runes ''foo'' \<mapsto> exampleFunction] zeroToken
     = Inr ((\<lparr>Kind = FUNCTION, Value = VFunction exampleFunction, Raw = runes ''foo'',
              Start = 0, End = 3\<rparr>, None, True), \<lparr>source = runes ''foo'', position = 3\<rparr>)
   \<and> ParseTokens goAscii exampleTables (runes ''foo'') [runes ''foo'' \<mapsto> exampleFunction] =
       Some (Inr ([\<lparr>Kind = FUNCTION, Value = VFunction exampleFunction, Raw = runes ''foo'',
                     Start = 0, End = 3\<rparr>], None))"
proof -
  have hyps: "readCharacter (newLexerStream (runes ''foo''))
       = Inr (rune CHR ''f'', \<lparr>source = runes ''foo'', position = 1\<rparr>)
     \<and> \<not> IsSpace goAscii (rune CHR ''f'') \<and> \<not> isNumeric goAscii (rune CHR ''f'')
     \<and> rune CHR ''f'' \<noteq> rune CHR '','' \<and> rune CHR ''f'' \<noteq> rune CHR ''[''
     \<and> IsLetter goAscii (rune CHR ''f'')
     \<and> readTokenUntilFalse goAscii \<lparr>source = runes ''foo'', position = 1\<rparr>
          (isVariableName goAscii)
       = Inr (runes ''foo'', \<lparr>source = runes ''foo'', position = 3\<rparr>)
     \<and> [runes ''foo'' \<mapsto> exampleFunction] (runes ''foo'') = Some exampleFunction
     \<and> rune CHR ''.'' \<notin> set (runes ''foo'')"
    by (simp add: readUntilFalse.simps stream_simps class_simps readTokenUntilFalse_def
        goAscii_def)
  have lib: "asciiUnicode goAscii
     \<and> getLexerStateForToken exampleTables FUNCTION = Some (exampleState FUNCTION)"
    by (simp add: asciiUnicode_goAscii exampleTables_def)
  show ?thesis
    using function_name_token[where s = "newLexerStream (runes ''foo'')"
        and c = "rune CHR ''f''"
        and ?s1.0 = "\<lparr>source = runes ''foo'', position = 1\<rparr>" and L = goAscii
        and run = "runes ''foo''" and ?s2.0 = "\<lparr>source = runes ''foo'', position = 3\<rparr>"
        and T = exampleTables and st = "initialState exampleTables"
        and fns = "[runes ''foo'' \<mapsto> exampleFunction]" and f = exampleFunction
        and ret = zeroToken and sf = "exampleState FUNCTION"] hyps lib
    by (simp add: newLexerStream_def)
qed

text \<open>
  What the code does on a letter-led run with a period in it: it fails with the
  hanging-accessor error when the run ends in a period, and with the unexported-field
  error, which names the segment and the run, at the first segment after the first whose
  first rune upper-casing changes (a segment led by a lower-case letter); otherwise the
  token is an \<^verbatim>\<open>ACCESSOR\<close> whose value is the sequence of the segments between the
  periods. \<^verbatim>\<open>foo.Bar\<close> is the accessor of \<^verbatim>\<open>foo\<close> and \<^verbatim>\<open>Bar\<close>, and
  \<^verbatim>\<open>foo.bar\<close> fails.
\<close>

theorem accessor_token:
  "(readCharacter s = Inr (c, s1) \<and> \<not> IsSpace L c \<and> \<not> isNumeric L c
      \<and> c \<noteq> rune CHR '','' \<and> c \<noteq> rune CHR ''['' \<and> IsLetter L c
      \<and> readTokenUntilFalse L s1 (isVariableName L) = Inr (run, s2)
      \<and> rune CHR ''.'' \<in> set run \<and> hd run \<noteq> rune CHR ''.''
    \<longrightarrow> readToken_loop L T s st fns ret =
          (if last run = rune CHR ''.'' then
             Inr ((\<lparr>Kind = UNKNOWN, Value = VNil, Raw = [], Start = position s,
                    End = position s2\<rparr>, Some (HangingAccessor run), False), s2)
           else case find (\<lambda>seg. ToUpper L (getFirstRune seg) \<noteq> getFirstRune seg)
                       (tl (strings_Split run (rune CHR ''.''))) of
                  Some seg \<Rightarrow>
                    Inr ((\<lparr>Kind = UNKNOWN, Value = VNil, Raw = [], Start = position s,
                           End = position s2\<rparr>, Some (UnexportedField seg run), False), s2)
                | None \<Rightarrow>
                    Inr ((\<lparr>Kind = ACCESSOR,
                           Value = VStrings (strings_Split run (rune CHR ''.'')), Raw = run,
                           Start = position s, End = position s2\<rparr>, None, True), s2)))
   \<and> concat (map (\<lambda>seg. rune CHR ''.'' # seg) (strings_Split run (rune CHR ''.'')))
       = rune CHR ''.'' # run
   \<and> (\<forall>seg \<in> set (strings_Split run (rune CHR ''.'')). rune CHR ''.'' \<notin> set seg)
   \<and> (asciiUnicode L \<and> getLexerStateForToken T ACCESSOR = Some sa
      \<longrightarrow> ParseTokens L T (runes ''foo.Bar'') fns =
            Some (Inr ([\<lparr>Kind = ACCESSOR, Value = VStrings [runes ''foo'', runes ''Bar''],
                          Raw = runes ''foo.Bar'', Start = 0, End = 7\<rparr>], None))
          \<and> ParseTokens L T (runes ''foo.bar'') fns =
            Some (Inr ([], Some (UnexportedField (runes ''bar'') (runes ''foo.bar'')))))"
proof (intro conjI impI ballI)
  assume h: "readCharacter s = Inr (c, s1) \<and> \<not> IsSpace L c \<and> \<not> isNumeric L c
      \<and> c \<noteq> rune CHR '','' \<and> c \<noteq> rune CHR ''['' \<and> IsLetter L c
      \<and> readTokenUntilFalse L s1 (isVariableName L) = Inr (run, s2)
      \<and> rune CHR ''.'' \<in> set run \<and> hd run \<noteq> rune CHR ''.''"
  then have loop: "readToken_loop L T s st fns ret =
      readToken_letter L s1 (position s) (ret\<lparr>Start := position s\<rparr>) fns"
    by (simp add: readToken_loop_letter)
  from h have dot: "0 < strings_Index run (rune CHR ''.'')"
    by (simp add: strings_Index_pos)
  from h loop dot show "readToken_loop L T s st fns ret =
          (if last run = rune CHR ''.'' then
             Inr ((\<lparr>Kind = UNKNOWN, Value = VNil, Raw = [], Start = position s,
                    End = position s2\<rparr>, Some (HangingAccessor run), False), s2)
           else case find (\<lambda>seg. ToUpper L (getFirstRune seg) \<noteq> getFirstRune seg)
                       (tl (strings_Split run (rune CHR ''.''))) of
                  Some seg \<Rightarrow>
                    Inr ((\<lparr>Kind = UNKNOWN, Value = VNil, Raw = [], Start = position s,
                           End = position s2\<rparr>, Some (UnexportedField seg run), False), s2)
                | None \<Rightarrow>
                    Inr ((\<lparr>Kind = ACCESSOR,
                           Value = VStrings (strings_Split run (rune CHR ''.'')), Raw = run,
                           Start = position s, End = position s2\<rparr>, None, True), s2))"
    by (simp add: readToken_letter_def emitToken_def failToken_def zeroToken_def
        unexportedField_find split: option.splits)
next
  show "concat (map (\<lambda>seg. rune CHR ''.'' # seg) (strings_Split run (rune CHR ''.'')))
       = rune CHR ''.'' # run"
    by (rule strings_Split_join)
next
  fix seg assume "seg \<in> set (strings_Split run (rune CHR ''.''))"
  then show "rune CHR ''.'' \<notin> set seg" by (rule strings_Split_segments)
next
  assume h: "asciiUnicode L \<and> getLexerStateForToken T ACCESSOR = Some sa"
  then have L: "asciiUnicode L" by simp
  from h show "ParseTokens L T (runes ''foo.Bar'') fns =
            Some (Inr ([\<lparr>Kind = ACCESSOR, Value = VStrings [runes ''foo'', runes ''Bar''],
                          Raw = runes ''foo.Bar'', Start = 0, End = 7\<rparr>], None))"
    by (simp add: run_simps stream_simps class_simps token_simps asciiUnicodeD[OF L]
        getFirstRune_def)
  from h show "ParseTokens L T (runes ''foo.bar'') fns =
            Some (Inr ([], Some (UnexportedField (runes ''bar'') (runes ''foo.bar''))))"
    by (simp add: run_simps stream_simps class_simps token_simps asciiUnicodeD[OF L]
        getFirstRune_def)
qed

theorem accessor_token_witness:
  "readCharacter (newLexerStream (runes ''foo.Bar''))
     = Inr (rune CHR ''f'', \<lparr>source = runes ''foo.Bar'', position = 1\<rparr>)
   \<and> \<not> IsSpace goAscii (rune CHR ''f'') \<and> \<not> isNumeric goAscii (rune CHR ''f'')
   \<and> IsLetter goAscii (rune CHR ''f'')
   \<and> readTokenUntilFalse goAscii \<lparr>source = runes ''foo.Bar'', position = 1\<rparr>
        (isVariableName goAscii)
     = Inr (runes ''foo.Bar'', \<lparr>source = runes ''foo.Bar'', position = 7\<rparr>)
   \<and> rune CHR ''.'' \<in> set (runes ''foo.Bar'') \<and> hd (runes ''foo.Bar'') \<noteq> rune CHR ''.''
   \<and> strings_Split (runes ''foo.Bar'') (rune CHR ''.'') = [runes ''foo'', runes ''Bar'']
   \<and> asciiUnicode goAscii
   \<and> getLexerStateForToken exampleTables ACCESSOR = Some (exampleState ACCESSOR)
   \<and> readToken_loop goAscii exampleTables (newLexerStream (runes ''foo.Bar''))
        (initialState exampleTables) Map.empty zeroToken
     = Inr ((\<lparr>Kind = ACCESSOR, Value = VStrings [runes ''foo'', runes ''Bar''],
              Raw = runes ''foo.Bar'', Start = 0, End = 7\<rparr>, None, True),
            \<lparr>source = runes ''foo.Bar'', position = 7\<rparr>)
   \<and> ParseTokens goAscii exampleTables (runes ''foo.Bar'') Map.empty =
       Some (Inr ([\<lparr>Kind = ACCESSOR, Value = VStrings [runes ''foo'', runes ''Bar''],
                     Raw = runes ''foo.Bar'', Start = 0, End = 7\<rparr>], None))
   \<and> ParseTokens goAscii exampleTables (runes ''foo.bar'') Map.empty =
       Some (Inr ([], Some (UnexportedField (runes ''bar'') (runes ''foo.bar''))))"
proof -
  have hyps: "readCharacter (newLexerStream (runes ''foo.Bar''))
       = Inr (rune CHR ''f'', \<lparr>source = runes ''foo.Bar'', position = 1\<rparr>)
     \<and> \<not> IsSpace goAscii (rune CHR ''f'') \<and> \<not> isNumeric goAscii (rune CHR ''f'')
     \<and> rune CHR ''f'' \<noteq> rune CHR '','' \<and> rune CHR ''f'' \<noteq> rune CHR ''[''
     \<and> IsLetter goAscii (rune CHR ''f'')
     \<and> readTokenUntilFalse goAscii \<lparr>source = runes ''foo.Bar'', position = 1\<rparr>
          (isVariableName goAscii)
       = Inr (runes ''foo.Bar'', \<lparr>source = runes ''foo.Bar'', position = 7\<rparr>)
     \<and> rune CHR ''.'' \<in> set (runes ''foo.Bar'') \<and> hd (runes ''foo.Bar'') \<noteq> rune CHR ''.''"
    by (simp add: readUntilFalse.simps stream_simps class_simps readTokenUntilFalse_def
        goAscii_def)
  have lib: "asciiUnicode goAscii
     \<and> getLexerStateForToken exampleTables ACCESSOR = Some (exampleState ACCESSOR)
     \<and> strings_Split (runes ''foo.Bar'') (rune CHR ''.'') = [runes ''foo'', runes ''Bar'']"
    by (simp add: asciiUnicode_goAscii exampleTables_def class_simps)
  have upper: "find (\<lambda>seg. ToUpper goAscii (getFirstRune seg) \<noteq> getFirstRune seg)
      [runes ''Bar''] = None"
    by (simp add: goAscii_def getFirstRune_def class_simps)
  show ?thesis
    using accessor_token[where s = "newLexerStream (runes ''foo.Bar'')"
        and c = "rune CHR ''f''"
        and ?s1.0 = "\<lparr>source = runes ''foo.Bar'', position = 1\<rparr>" and L = goAscii
        and run = "runes ''foo.Bar''"
        and ?s2.0 = "\<lparr>source = runes ''foo.Bar'', position = 7\<rparr>"
        and T = exampleTables and st = "initialState exampleTables" and fns = Map.empty
        and ret = zeroToken and sa = "exampleState ACCESSOR"] hyps lib upper
    by (simp add: newLexerStream_def class_simps)
qed

text \<open>
  Claim C5. The claim has the tokenizer fail at every segment after the first that does
  not start with an upper-case letter, and the code's comment has the loop check that
  no segment is unexported. The test the code makes is that upper-casing leaves the first
  rune of the segment as it is, and it lets through a segment led by an underscore or by
  a digit and an empty segment, whose first rune is \<open>0\<close>: \<^verbatim>\<open>foo._bar\<close>,
  \<^verbatim>\<open>foo.1\<close> and \<^verbatim>\<open>foo..Bar\<close> are \<^verbatim>\<open>ACCESSOR\<close> tokens.
\<close>

theorem unexported_segment_is_accepted:
  "ParseTokens goAscii exampleTables (runes ''foo._bar'') Map.empty =
     Some (Inr ([\<lparr>Kind = ACCESSOR, Value = VStrings [runes ''foo'', runes ''_bar''],
                   Raw = runes ''foo._bar'', Start = 0, End = 8\<rparr>], None))
   \<and> ParseTokens goAscii exampleTables (runes ''foo.1'') Map.empty =
     Some (Inr ([\<lparr>Kind = ACCESSOR, Value = VStrings [runes ''foo'', runes ''1''],
                   Raw = runes ''foo.1'', Start = 0, End = 5\<rparr>], None))
   \<and> ParseTokens goAscii exampleTables (runes ''foo..Bar'') Map.empty =
     Some (Inr ([\<lparr>Kind = ACCESSOR, Value = VStrings [runes ''foo'', [], runes ''Bar''],
                   Raw = runes ''foo..Bar'', Start = 0, End = 8\<rparr>], None))"
  by (simp add: run_simps stream_simps class_simps token_simps goAscii_def exampleTables_def
      exampleState_def wordKind_def)

section \<open>The renderer\<close>

lemma appendAll_Inr:
  "(\<And>r. r \<in> set rs \<Longrightarrow> \<exists>s. r = Inr s) \<Longrightarrow> \<exists>ss. appendAll rs = Inr ss"
proof (induction rs)
  case Nil
  then show ?case by simp
next
  case (Cons r rs)
  then obtain s where "r = Inr s" by auto
  moreover from Cons obtain ss where "appendAll rs = Inr ss" by auto
  ultimately show ?case by simp
qed

lemma strings_Repeat_Inr: "0 \<le> n \<Longrightarrow> strings_Repeat s n = Inr (concat (replicate (nat n) s))"
  by (simp add: strings_Repeat_def)

lemma generate_returns:
  "0 \<le> indent \<Longrightarrow> arityOk ast \<Longrightarrow> \<exists>text. generate formatValue ast indent = Inr text"
proof (induction ast arbitrary: indent)
  case (ASTNode token children)
  have kids: "\<And>child n. child \<in> set children \<Longrightarrow> 0 \<le> n
      \<Longrightarrow> \<exists>text. generate formatValue child n = Inr text"
    using ASTNode.IH ASTNode.prems(2) by auto
  have rep: "strings_Repeat ''  '' indent = Inr (concat (replicate (nat indent) ''  ''))"
    using ASTNode.prems(1) by (rule strings_Repeat_Inr)
  have all0: "\<exists>ss. appendAll (map (\<lambda>child. generate formatValue child 0) children) = Inr ss"
    by (rule appendAll_Inr) (use kids in auto)
  have all1: "\<exists>ss. appendAll (map (\<lambda>child. generate formatValue child (indent + 1)) children) = Inr ss"
    by (rule appendAll_Inr) (use kids ASTNode.prems(1) in auto)
  show ?case
  proof (cases "TKind token")
    case LOGICALOP
    with ASTNode.prems(2) obtain c0 c1 rest where ch: "children = c0 # c1 # rest"
      by (cases children; cases "tl children") auto
    from kids[of c0 "indent + 1"] kids[of c1 "indent + 1"] ch ASTNode.prems(1)
    obtain l r where "generate formatValue c0 (indent + 1) = Inr l"
      "generate formatValue c1 (indent + 1) = Inr r" by auto
    with LOGICALOP ch rep show ?thesis by simp
  next
    case COMPARATOR
    with ASTNode.prems(2) obtain c0 c1 rest where ch: "children = c0 # c1 # rest"
      by (cases children; cases "tl children") auto
    from kids[of c0 "indent + 1"] kids[of c1 "indent + 1"] ch ASTNode.prems(1)
    obtain l r where "generate formatValue c0 (indent + 1) = Inr l"
      "generate formatValue c1 (indent + 1) = Inr r" by auto
    with COMPARATOR ch rep show ?thesis by simp
  next
    case PREFIX
    with ASTNode.prems(2) obtain c0 rest where ch: "children = c0 # rest"
      by (cases children) auto
    from kids[of c0 "indent + 1"] ch ASTNode.prems(1)
    obtain l where "generate formatValue c0 (indent + 1) = Inr l" by auto
    with PREFIX ch rep show ?thesis by simp
  next
    case FUNCTION
    with all0 rep show ?thesis by auto
  next
    case ARRAY
    with all1 rep show ?thesis by auto
  qed (use rep in simp_all)
qed

text \<open>
  Claim C9. On every tree that satisfies the arity invariant, at every depth from \<open>0\<close>
  on, \<^verbatim>\<open>generate\<close> returns a string and does not panic (it is a total function: it
  terminates on every tree). A node whose kind is none of \<^verbatim>\<open>LOGICALOP\<close>,
  \<^verbatim>\<open>COMPARATOR\<close>, \<^verbatim>\<open>PREFIX\<close>, \<^verbatim>\<open>FUNCTION\<close>, \<^verbatim>\<open>VARIABLE\<close>, \<^verbatim>\<open>STRING\<close>,
  \<^verbatim>\<open>NUMERIC\<close>, \<^verbatim>\<open>ARRAY\<close> renders as the empty text. A \<^verbatim>\<open>FUNCTION\<close> node with
  no children renders as its name followed by \<^verbatim>\<open>(  )\<close>, with two spaces between the
  parentheses.
\<close>

theorem generate_returns_text:
  "(0 \<le> indent \<and> arityOk ast \<longrightarrow> (\<exists>text. generate formatValue ast indent = Inr text))
   \<and> (0 \<le> indent
        \<and> TKind token \<notin> {LOGICALOP, COMPARATOR, PREFIX, FUNCTION, VARIABLE, STRING, NUMERIC, ARRAY}
      \<longrightarrow> generate formatValue (ASTNode token children) indent = Inr [])
   \<and> (0 \<le> indent
      \<longrightarrow> generate formatValue (ASTNode \<lparr>TKind = FUNCTION, Content = name, TValue = v\<rparr> []) indent
            = Inr (name @ ''(  )''))"
proof (intro conjI impI)
  assume "0 \<le> indent \<and> arityOk ast"
  then show "\<exists>text. generate formatValue ast indent = Inr text"
    by (simp add: generate_returns)
next
  assume "0 \<le> indent
        \<and> TKind token \<notin> {LOGICALOP, COMPARATOR, PREFIX, FUNCTION, VARIABLE, STRING, NUMERIC, ARRAY}"
  then show "generate formatValue (ASTNode token children) indent = Inr []"
    by (cases "TKind token") (simp_all add: strings_Repeat_def)
next
  assume "0 \<le> indent"
  then show "generate formatValue (ASTNode \<lparr>TKind = FUNCTION, Content = name, TValue = v\<rparr> []) indent
            = Inr (name @ ''(  )'')"
    by (simp add: strings_Repeat_def)
qed

theorem generate_returns_text_witness:
  "arityOk exampleTree
   \<and> generate (\<lambda>v. v) exampleTree 0 = Inr (''a > 1'' @ [CHR 0x0A] @ ''&&'' @ [CHR 0x0A] @ ''f(  ) '')
   \<and> TKind \<lparr>TKind = TIME, Content = ''t'', TValue = ''t''\<rparr>
       \<notin> {LOGICALOP, COMPARATOR, PREFIX, FUNCTION, VARIABLE, STRING, NUMERIC, ARRAY}
   \<and> generate (\<lambda>v. v) (ASTNode \<lparr>TKind = TIME, Content = ''t'', TValue = ''t''\<rparr> []) 0 = Inr []
   \<and> generate (\<lambda>v. v) (ASTNode \<lparr>TKind = FUNCTION, Content = ''name'', TValue = []\<rparr> []) 0
       = Inr ''name(  )''"
proof -
  have ok: "arityOk exampleTree"
    by (simp add: exampleTree_def exampleAnd_def exampleLeft_def exampleRight_def)
  have rendered: "generate (\<lambda>v. v) exampleTree 0
      = Inr (''a > 1'' @ [CHR 0x0A] @ ''&&'' @ [CHR 0x0A] @ ''f(  ) '')"
    by (simp add: exampleTree_def exampleAnd_def exampleLeft_def exampleRight_def
        strings_Repeat_def)
  show ?thesis
    using generate_returns_text[where indent = 0 and ast = exampleTree and formatValue = "\<lambda>v. v"
        and token = "\<lparr>TKind = TIME, Content = ''t'', TValue = ''t''\<rparr>" and children = "[]"
        and name = "''name''" and v = "[]"] ok rendered
    by simp
qed

text \<open>
  Claim C8. A \<^verbatim>\<open>LOGICALOP\<close> node whose first two children render at depth plus one:
  the group is the left text, then on a line of its own the operator after the
  indentation of two spaces for each level of depth, then on the next line the right
  text after the same indentation. At depth \<open>0\<close> the result is the group, and it is
  not of the form of a text between parentheses; at a depth above \<open>0\<close> the result
  is the group between an opening parenthesis and a closing one, each on a line of
  its own.
\<close>

theorem logicalop_parentheses:
  "(TKind token = LOGICALOP \<and> 0 \<le> indent
      \<and> generate formatValue left (indent + 1) = Inr l
      \<and> generate formatValue right (indent + 1) = Inr r
    \<longrightarrow> generate formatValue (ASTNode token (left # right # rest)) indent =
          (let indentStr = replicate (2 * nat indent) CHR '' '';
               group = l @ [CHR 0x0A] @ indentStr @ Content token @ [CHR 0x0A] @ indentStr
                       @ r @ '' '' @ indentStr
           in if indent = 0 then Inr group
              else Inr (''('' @ [CHR 0x0A] @ indentStr @ group @ [CHR 0x0A] @ indentStr @ '')''))
        \<and> (indent = 0 \<longrightarrow>
             (\<nexists>body. generate formatValue (ASTNode token (left # right # rest)) indent
                       = Inr (''('' @ body @ '')'')))
        \<and> (0 < indent \<longrightarrow>
             (\<exists>body. generate formatValue (ASTNode token (left # right # rest)) indent
                       = Inr (''('' @ body @ '')''))))"
proof (intro impI)
  assume h: "TKind token = LOGICALOP \<and> 0 \<le> indent
      \<and> generate formatValue left (indent + 1) = Inr l
      \<and> generate formatValue right (indent + 1) = Inr r"
  have rep: "concat (replicate n ''  '') = replicate (2 * n) CHR '' ''" for n
    by (induction n) simp_all
  have eq: "generate formatValue (ASTNode token (left # right # rest)) indent =
          (let indentStr = replicate (2 * nat indent) CHR '' '';
               group = l @ [CHR 0x0A] @ indentStr @ Content token @ [CHR 0x0A] @ indentStr
                       @ r @ '' '' @ indentStr
           in if indent = 0 then Inr group
              else Inr (''('' @ [CHR 0x0A] @ indentStr @ group @ [CHR 0x0A] @ indentStr @ '')''))"
    using h by (simp add: strings_Repeat_def rep Let_def)
  have zero: "\<nexists>body. generate formatValue (ASTNode token (left # right # rest)) indent
                       = Inr (''('' @ body @ '')'')" if "indent = 0"
  proof
    assume "\<exists>body. generate formatValue (ASTNode token (left # right # rest)) indent
                       = Inr (''('' @ body @ '')'')"
    then obtain body where b: "generate formatValue (ASTNode token (left # right # rest)) indent
                       = Inr (''('' @ body @ '')'')" by blast
    have "l @ [CHR 0x0A] @ Content token @ [CHR 0x0A] @ r @ '' ''
        = ''('' @ body @ '')''"
      using b that unfolding eq by (simp add: Let_def)
    then have "last (l @ [CHR 0x0A] @ Content token @ [CHR 0x0A] @ r @ '' '')
        = last (''('' @ body @ '')'')" by simp
    then show False by simp
  qed
  have pos: "\<exists>body. generate formatValue (ASTNode token (left # right # rest)) indent
                       = Inr (''('' @ body @ '')'')" if "0 < indent"
    unfolding eq using that by (auto simp: Let_def)
  from eq zero pos show "generate formatValue (ASTNode token (left # right # rest)) indent =
          (let indentStr = replicate (2 * nat indent) CHR '' '';
               group = l @ [CHR 0x0A] @ indentStr @ Content token @ [CHR 0x0A] @ indentStr
                       @ r @ '' '' @ indentStr
           in if indent = 0 then Inr group
              else Inr (''('' @ [CHR 0x0A] @ indentStr @ group @ [CHR 0x0A] @ indentStr @ '')''))
        \<and> (indent = 0 \<longrightarrow>
             (\<nexists>body. generate formatValue (ASTNode token (left # right # rest)) indent
                       = Inr (''('' @ body @ '')'')))
        \<and> (0 < indent \<longrightarrow>
             (\<exists>body. generate formatValue (ASTNode token (left # right # rest)) indent
                       = Inr (''('' @ body @ '')'')))"
    by blast
qed

theorem logicalop_parentheses_witness:
  "TKind exampleAnd = LOGICALOP
   \<and> generate (\<lambda>v. v) exampleLeft 1 = Inr ''a > 1''
   \<and> generate (\<lambda>v. v) exampleRight 1 = Inr ''f(  )''
   \<and> generate (\<lambda>v. v) (ASTNode exampleAnd [exampleLeft, exampleRight]) 0
       = Inr (''a > 1'' @ [CHR 0x0A] @ ''&&'' @ [CHR 0x0A] @ ''f(  ) '')
   \<and> generate (\<lambda>v. v) exampleLeft 2 = Inr ''a > 1''
   \<and> generate (\<lambda>v. v) exampleRight 2 = Inr ''f(  )''
   \<and> generate (\<lambda>v. v) (ASTNode exampleAnd [exampleLeft, exampleRight]) 1
       = Inr (''('' @ [CHR 0x0A] @ ''  a > 1'' @ [CHR 0x0A] @ ''  &&'' @ [CHR 0x0A]
              @ ''  f(  )   '' @ [CHR 0x0A] @ ''  )'')"
proof -
  have kids: "TKind exampleAnd = LOGICALOP
     \<and> generate (\<lambda>v. v) exampleLeft 1 = Inr ''a > 1''
     \<and> generate (\<lambda>v. v) exampleRight 1 = Inr ''f(  )''
     \<and> generate (\<lambda>v. v) exampleLeft 2 = Inr ''a > 1''
     \<and> generate (\<lambda>v. v) exampleRight 2 = Inr ''f(  )''"
    by (simp add: exampleLeft_def exampleRight_def exampleAnd_def strings_Repeat_def)
  have two: "replicate 2 CHR '' '' = ''  ''" by (simp add: numeral_2_eq_2)
  show ?thesis
    using logicalop_parentheses[where token = exampleAnd and indent = 0
        and formatValue = "\<lambda>v. v" and left = exampleLeft and right = exampleRight
        and l = "''a > 1''" and r = "''f(  )''" and rest = "[]"]
      logicalop_parentheses[where token = exampleAnd and indent = 1
        and formatValue = "\<lambda>v. v" and left = exampleLeft and right = exampleRight
        and l = "''a > 1''" and r = "''f(  )''" and rest = "[]"] kids
    by (simp add: Let_def two exampleAnd_def)
qed

end
